theory Spec2Isabelle
  imports Main "HOL-Library.Sublist"
begin

section \<open>The ONNX export script \<open>exportt5.py\<close>\<close>

text \<open>
  The script prints the version of the transformers library, then walks a fixed list
  of model identifiers. For each identifier it derives an output directory from the
  identifier, loads and converts the model, loads the tokenizer, and saves both into
  the output directory. Nothing is caught: the first exception ends the run.

  The four library calls are external. They are parameters of the model (the record
  \<open>env\<close>); every one of them may raise, and every one of them may change the part of
  the world it works on. String splitting, list indexing and \<open>pathlib.Path\<close> are
  Python's own and are written out. The imports of lines 1 to 4 are taken to succeed.
\<close>

subsection \<open>Python's strings, lists and paths\<close>

text \<open>
  An exception that ends the run: the \<open>IndexError\<close> of a list subscript, or whatever
  an external call raised (kept as the text of the exception).
\<close>

datatype error = IndexError | Raised string

text \<open>
  \<open>s.split(sep)\<close> for a one-character separator: the pieces of \<open>s\<close> between the
  occurrences of \<open>sep\<close>, empty pieces included. The result is never empty (the
  \<open>[]\<close> branch of the case is there for totality only).
\<close>

fun split :: "string \<Rightarrow> char \<Rightarrow> string list" where
  "split [] sep = [[]]"
| "split (c # cs) sep =
     (if c = sep then [] # split cs sep
      else (case split cs sep of [] \<Rightarrow> [[c]] | w # ws \<Rightarrow> (c # w) # ws))"

text \<open>\<open>xs[i]\<close> for a non-negative index: out of range raises \<open>IndexError\<close>.\<close>

definition subscript :: "'a list \<Rightarrow> nat \<Rightarrow> error + 'a" where
  "subscript xs i = (if i < length xs then Inr (xs ! i) else Inl IndexError)"

text \<open>
  \<open>pathlib.Path(s)\<close>, in its POSIX flavour. A path object is its root (\<open>''''\<close>,
  \<open>''/''\<close> or \<open>''//''\<close>) and its parts; parsing drops empty components and
  components \<open>''.''\<close>, so \<open>Path("onnx/")\<close> and \<open>Path("onnx")\<close> are the same object.
  Two path objects are equal in Python exactly when root and parts agree.
\<close>

record path =
  root :: string
  parts :: "string list"

definition splitroot :: "string \<Rightarrow> string \<times> string" where
  "splitroot p =
     (if take 1 p \<noteq> ''/'' then ('''', p)
      else if take 1 (drop 1 p) \<noteq> ''/'' \<or> take 1 (drop 2 p) = ''/'' then (''/'', drop 1 p)
      else (''//'', drop 2 p))"

definition Path :: "string \<Rightarrow> path" where
  "Path s =
     (case splitroot s of
        (r, rel) \<Rightarrow> \<lparr>root = r, parts = filter (\<lambda>x. x \<noteq> [] \<and> x \<noteq> ''.'') (split rel CHR ''/'')\<rparr>)"

text \<open>\<open>sep.join(xs)\<close> and \<open>str(p)\<close> for a path \<open>p\<close>.\<close>

fun join :: "string \<Rightarrow> string list \<Rightarrow> string" where
  "join sep [] = []"
| "join sep [x] = x"
| "join sep (x # y # ys) = x @ sep @ join sep (y # ys)"

definition str_path :: "path \<Rightarrow> string" where
  "str_path p = (if root p = [] \<and> parts p = [] then ''.'' else root p @ join ''/'' (parts p))"

subsection \<open>Deriving the output directory (lines 20 and 21)\<close>

text \<open>\<open>model_name = model_id.split("/")[1]\<close>\<close>

definition model_name :: "string \<Rightarrow> error + string" where
  "model_name model_id = subscript (split model_id CHR ''/'') 1"

text \<open>\<open>onnx_path = Path("onnx/" + model_name)\<close>\<close>

definition onnx_path :: "string \<Rightarrow> error + path" where
  "onnx_path model_id =
     (case model_name model_id of
        Inl e \<Rightarrow> Inl e
      | Inr name \<Rightarrow> Inr (Path (''onnx/'' @ name)))"

text \<open>
  The spec's wording for the name, used to compare with the code: the substring after
  the last occurrence of the separator.
\<close>

definition after_last :: "char \<Rightarrow> string \<Rightarrow> string" where
  "after_last sep s = rev (takeWhile (\<lambda>c. c \<noteq> sep) (rev s))"

text \<open>
  What the code takes instead: the text between the first separator and the next one
  (or the end of the string).
\<close>

definition between_first_two :: "char \<Rightarrow> string \<Rightarrow> string" where
  "between_first_two sep s = takeWhile (\<lambda>c. c \<noteq> sep) (drop 1 (dropWhile (\<lambda>c. c \<noteq> sep) s))"

subsection \<open>The world, the external calls and the trace\<close>

text \<open>
  The steps of the script, as an instrumented run records them. A call is recorded
  when it is made, whether it returns or raises; a derivation is recorded when the
  output directory has been computed.
\<close>

datatype step =
    Derived string path
  | LoadConvert string
  | LoadTokenizer string
  | SaveModel path
  | SaveTokenizer path

text \<open>
  The state of a run: the lines printed, the trace, the state \<open>hub\<close> of everything the
  loading calls work on (the model hub, the network, caches), and the state \<open>fs\<close> of
  the filesystem the saving calls write. A loading call reads and changes \<open>hub\<close> only
  and a saving call \<open>fs\<close> only: these are the interfaces the specification gives them
  (network reads from the hub, filesystem writes under \<open>onnx/\<close>).
\<close>

record ('h, 'f) state =
  stdout :: "string list"
  trace :: "step list"
  hub :: 'h
  fs :: 'f

text \<open>
  The external library: \<open>transformers.__version__\<close>,
  \<open>ORTModelForSeq2SeqLM.from_pretrained(model_id, from_transformers=True)\<close>,
  \<open>AutoTokenizer.from_pretrained(model_id)\<close>, \<open>model.save_pretrained(path)\<close> and
  \<open>tokenizer.save_pretrained(path)\<close>. Each call returns a value or raises (\<open>Inl\<close>),
  and returns the state it leaves behind in both cases.
\<close>

record ('h, 'f, 'm, 't) env =
  transformers_version :: string
  ORTModelForSeq2SeqLM_from_pretrained :: "string \<Rightarrow> 'h \<Rightarrow> (string + 'm) \<times> 'h"
  AutoTokenizer_from_pretrained :: "string \<Rightarrow> 'h \<Rightarrow> (string + 't) \<times> 'h"
  model_save_pretrained :: "'m \<Rightarrow> path \<Rightarrow> 'f \<Rightarrow> (string + unit) \<times> 'f"
  tokenizer_save_pretrained :: "'t \<Rightarrow> path \<Rightarrow> 'f \<Rightarrow> (string + unit) \<times> 'f"

text \<open>Sequencing of statements: an exception skips everything that follows.\<close>

definition and_then ::
  "(('h, 'f) state \<Rightarrow> (error + 'a) \<times> ('h, 'f) state) \<Rightarrow>
   ('a \<Rightarrow> ('h, 'f) state \<Rightarrow> (error + 'b) \<times> ('h, 'f) state) \<Rightarrow>
   ('h, 'f) state \<Rightarrow> (error + 'b) \<times> ('h, 'f) state" where
  "and_then f g s = (case f s of (Inl e, s') \<Rightarrow> (Inl e, s') | (Inr a, s') \<Rightarrow> g a s')"

subsection \<open>The statements of the script\<close>

text \<open>Line 7: \<open>print("transformers version:", t.__version__)\<close>\<close>

definition print_version ::
  "('h, 'f, 'm, 't) env \<Rightarrow> ('h, 'f) state \<Rightarrow> (error + unit) \<times> ('h, 'f) state" where
  "print_version env s =
     (Inr (), s\<lparr>stdout := stdout s @ [''transformers version: '' @ transformers_version env]\<rparr>)"

text \<open>Lines 11 to 17: the list, and the entries that are commented out in it.\<close>

definition models :: "string list" where
  "models = [''google/flan-t5-xl'', ''google/flan-t5-xxl'']"


text \<open>Lines 20 and 21.\<close>

definition derive_path ::
  "string \<Rightarrow> ('h, 'f) state \<Rightarrow> (error + path) \<times> ('h, 'f) state" where
  "derive_path model_id s =
     (case onnx_path model_id of
        Inl e \<Rightarrow> (Inl e, s)
      | Inr p \<Rightarrow> (Inr p, s\<lparr>trace := trace s @ [Derived model_id p]\<rparr>))"

text \<open>Line 24.\<close>

definition load_convert ::
  "('h, 'f, 'm, 't) env \<Rightarrow> string \<Rightarrow> ('h, 'f) state \<Rightarrow> (error + 'm) \<times> ('h, 'f) state" where
  "load_convert env model_id s =
     (case ORTModelForSeq2SeqLM_from_pretrained env model_id (hub s) of
        (r, h) \<Rightarrow>
          (case r of Inl x \<Rightarrow> Inl (Raised x) | Inr model \<Rightarrow> Inr model,
           s\<lparr>trace := trace s @ [LoadConvert model_id], hub := h\<rparr>))"

text \<open>Line 25.\<close>

definition load_tokenizer ::
  "('h, 'f, 'm, 't) env \<Rightarrow> string \<Rightarrow> ('h, 'f) state \<Rightarrow> (error + 't) \<times> ('h, 'f) state" where
  "load_tokenizer env model_id s =
     (case AutoTokenizer_from_pretrained env model_id (hub s) of
        (r, h) \<Rightarrow>
          (case r of Inl x \<Rightarrow> Inl (Raised x) | Inr tokenizer \<Rightarrow> Inr tokenizer,
           s\<lparr>trace := trace s @ [LoadTokenizer model_id], hub := h\<rparr>))"

text \<open>Line 28.\<close>

definition save_model ::
  "('h, 'f, 'm, 't) env \<Rightarrow> 'm \<Rightarrow> path \<Rightarrow> ('h, 'f) state \<Rightarrow> (error + unit) \<times> ('h, 'f) state" where
  "save_model env model p s =
     (case model_save_pretrained env model p (fs s) of
        (r, f) \<Rightarrow>
          (case r of Inl x \<Rightarrow> Inl (Raised x) | Inr u \<Rightarrow> Inr u,
           s\<lparr>trace := trace s @ [SaveModel p], fs := f\<rparr>))"

text \<open>Line 29.\<close>

definition save_tokenizer ::
  "('h, 'f, 'm, 't) env \<Rightarrow> 't \<Rightarrow> path \<Rightarrow> ('h, 'f) state \<Rightarrow> (error + unit) \<times> ('h, 'f) state" where
  "save_tokenizer env tokenizer p s =
     (case tokenizer_save_pretrained env tokenizer p (fs s) of
        (r, f) \<Rightarrow>
          (case r of Inl x \<Rightarrow> Inl (Raised x) | Inr u \<Rightarrow> Inr u,
           s\<lparr>trace := trace s @ [SaveTokenizer p], fs := f\<rparr>))"

text \<open>Lines 20 to 29: the body of the loop, for one identifier.\<close>

definition loop_body ::
  "('h, 'f, 'm, 't) env \<Rightarrow> string \<Rightarrow> ('h, 'f) state \<Rightarrow> (error + unit) \<times> ('h, 'f) state" where
  "loop_body env model_id =
     and_then (derive_path model_id) (\<lambda>p.
     and_then (load_convert env model_id) (\<lambda>model.
     and_then (load_tokenizer env model_id) (\<lambda>tokenizer.
     and_then (save_model env model p) (\<lambda>u.
     save_tokenizer env tokenizer p))))"

text \<open>Line 19: \<open>for model_id in models\<close>, for any list.\<close>

fun for_loop ::
  "('h, 'f, 'm, 't) env \<Rightarrow> string list \<Rightarrow> ('h, 'f) state \<Rightarrow> (error + unit) \<times> ('h, 'f) state" where
  "for_loop env [] s = (Inr (), s)"
| "for_loop env (model_id # rest) s =
     (case loop_body env model_id s of
        (Inl e, s') \<Rightarrow> (Inl e, s')
      | (Inr u, s') \<Rightarrow> for_loop env rest s')"

text \<open>The whole script, started on a hub state and a filesystem.\<close>

definition script ::
  "('h, 'f, 'm, 't) env \<Rightarrow> 'h \<Rightarrow> 'f \<Rightarrow> (error + unit) \<times> ('h, 'f) state" where
  "script env h f =
     and_then (print_version env) (\<lambda>u. for_loop env models)
       \<lparr>stdout = [], trace = [], hub = h, fs = f\<rparr>"

text \<open>
  The steps one iteration is made of, in the order of the lines; none for an
  identifier whose output directory cannot be derived.
\<close>

definition steps_of :: "string \<Rightarrow> step list" where
  "steps_of model_id =
     (case onnx_path model_id of
        Inl e \<Rightarrow> []
      | Inr p \<Rightarrow>
          [Derived model_id p, LoadConvert model_id, LoadTokenizer model_id,
           SaveModel p, SaveTokenizer p])"

subsection \<open>Two runs of the script, and instances of the library\<close>

text \<open>
  The outcome of a loading call: the identifier it was made for, and what
  \<open>ORTModelForSeq2SeqLM.from_pretrained\<close> or \<open>AutoTokenizer.from_pretrained\<close> returned
  or raised.
\<close>

datatype ('m, 't) outcome = Converted string "string + 'm" | Loaded string "string + 't"

text \<open>
  The outcomes of the loading calls that a run over a list makes, in the order of the
  calls, when it starts on the hub state \<open>h\<close> and the filesystem \<open>f\<close>. It follows the
  loop: no call for an identifier without directory, no tokenizer call after a
  conversion that raised, nothing more after any call that raised.
\<close>

fun load_outcomes ::
  "('h, 'f, 'm, 't) env \<Rightarrow> string list \<Rightarrow> 'h \<Rightarrow> 'f \<Rightarrow> ('m, 't) outcome list" where
  "load_outcomes env [] h f = []"
| "load_outcomes env (model_id # rest) h f =
     (case onnx_path model_id of
        Inl e \<Rightarrow> []
      | Inr p \<Rightarrow>
          (case ORTModelForSeq2SeqLM_from_pretrained env model_id h of
             (Inl x, h1) \<Rightarrow> [Converted model_id (Inl x)]
           | (Inr model, h1) \<Rightarrow>
               Converted model_id (Inr model) #
               (case AutoTokenizer_from_pretrained env model_id h1 of
                  (Inl x, h2) \<Rightarrow> [Loaded model_id (Inl x)]
                | (Inr tokenizer, h2) \<Rightarrow>
                    Loaded model_id (Inr tokenizer) #
                    (case model_save_pretrained env model p f of
                       (Inl x, f1) \<Rightarrow> []
                     | (Inr u, f1) \<Rightarrow>
                         (case tokenizer_save_pretrained env tokenizer p f1 of
                            (Inl x, f2) \<Rightarrow> []
                          | (Inr u, f2) \<Rightarrow> load_outcomes env rest h2 f2)))))"

text \<open>The step of the trace that an outcome answers, and the loading steps of a trace.\<close>

fun call_of :: "('m, 't) outcome \<Rightarrow> step" where
  "call_of (Converted model_id r) = LoadConvert model_id"
| "call_of (Loaded model_id r) = LoadTokenizer model_id"

fun is_load :: "step \<Rightarrow> bool" where
  "is_load (LoadConvert model_id) = True"
| "is_load (LoadTokenizer model_id) = True"
| "is_load (Derived model_id p) = False"
| "is_load (SaveModel p) = False"
| "is_load (SaveTokenizer p) = False"

text \<open>
  The saving calls are deterministic and overwriting. The filesystem maps file names
  to contents. Deterministic: whether a save returns or raises is determined by the
  artefact and the directory. Overwriting: so are the files it writes, and they
  replace what was there under their names.
\<close>

definition saves_deterministic_overwriting ::
  "('h, 'k \<Rightarrow> 'c option, 'm, 't) env \<Rightarrow>
   ('m \<Rightarrow> path \<Rightarrow> string + unit) \<Rightarrow> ('m \<Rightarrow> path \<Rightarrow> 'k \<Rightarrow> 'c option) \<Rightarrow>
   ('t \<Rightarrow> path \<Rightarrow> string + unit) \<Rightarrow> ('t \<Rightarrow> path \<Rightarrow> 'k \<Rightarrow> 'c option) \<Rightarrow> bool" where
  "saves_deterministic_overwriting env model_result model_files tokenizer_result tokenizer_files \<longleftrightarrow>
     (\<forall>model p f.
        model_save_pretrained env model p f = (model_result model p, f ++ model_files model p)) \<and>
     (\<forall>tokenizer p f.
        tokenizer_save_pretrained env tokenizer p f =
          (tokenizer_result tokenizer p, f ++ tokenizer_files tokenizer p))"

text \<open>
  An instance of the library to run the script on: the hub counts the loading calls,
  one model and one tokenizer are missing from it, a model is saved as a file
  \<open>model.onnx\<close> and a tokenizer as a file \<open>tokenizer.json\<close> of the directory.
\<close>

definition stub_library :: "(nat, path \<times> string \<Rightarrow> string option, string, string) env" where
  "stub_library =
     \<lparr>transformers_version = ''4.26.1'',
      ORTModelForSeq2SeqLM_from_pretrained =
        (\<lambda>model_id h.
           (if model_id = ''google/no-such-model'' then Inl ''OSError''
            else Inr (''model of '' @ model_id), Suc h)),
      AutoTokenizer_from_pretrained =
        (\<lambda>model_id h.
           (if model_id = ''google/no-tokenizer'' then Inl ''OSError''
            else Inr (''tokenizer of '' @ model_id), Suc h)),
      model_save_pretrained = (\<lambda>model p f. (Inr (), f((p, ''model.onnx'') \<mapsto> model))),
      tokenizer_save_pretrained =
        (\<lambda>tokenizer p f. (Inr (), f((p, ''tokenizer.json'') \<mapsto> tokenizer)))\<rparr>"

definition start :: "(nat, path \<times> string \<Rightarrow> string option) state" where
  "start = \<lparr>stdout = [], trace = [], hub = 0, fs = Map.empty\<rparr>"

text \<open>
  Another instance: every artefact carries the number of the download that fetched
  it, so the hub hands out something new each time, and the hub cannot be reached any
  more for a conversion once ten downloads have been made. Saving is as in
  \<open>stub_library\<close>.
\<close>

definition drifting_library ::
  "(nat, path \<times> string \<Rightarrow> (string \<times> nat) option, string \<times> nat, string \<times> nat) env" where
  "drifting_library =
     \<lparr>transformers_version = ''4.26.1'',
      ORTModelForSeq2SeqLM_from_pretrained =
        (\<lambda>model_id h. (if h < 10 then Inr (model_id, h) else Inl ''ConnectionError'', Suc h)),
      AutoTokenizer_from_pretrained = (\<lambda>model_id h. (Inr (model_id, h), Suc h)),
      model_save_pretrained = (\<lambda>model p f. (Inr (), f((p, ''model.onnx'') \<mapsto> model))),
      tokenizer_save_pretrained =
        (\<lambda>tokenizer p f. (Inr (), f((p, ''tokenizer.json'') \<mapsto> tokenizer)))\<rparr>"

text \<open>
  A library that keeps a record of the calls it receives: \<open>hub\<close> is the list of the
  loading calls, \<open>fs\<close> the list of the saving calls, each with the artefact that was
  saved. A call that raises is recorded too. One model and one tokenizer cannot be
  loaded, one directory refuses the model and one refuses the tokenizer.
\<close>

definition recording_library :: "(step list, (string \<times> step) list, string, string) env" where
  "recording_library =
     \<lparr>transformers_version = ''4.26.1'',
      ORTModelForSeq2SeqLM_from_pretrained =
        (\<lambda>model_id h.
           (if model_id = ''google/no-such-model'' then Inl ''OSError''
            else Inr (''model of '' @ model_id), h @ [LoadConvert model_id])),
      AutoTokenizer_from_pretrained =
        (\<lambda>model_id h.
           (if model_id = ''google/no-tokenizer'' then Inl ''OSError''
            else Inr (''tokenizer of '' @ model_id), h @ [LoadTokenizer model_id])),
      model_save_pretrained =
        (\<lambda>model p f.
           (if p = Path ''onnx/read-only'' then Inl ''PermissionError'' else Inr (),
            f @ [(model, SaveModel p)])),
      tokenizer_save_pretrained =
        (\<lambda>tokenizer p f.
           (if p = Path ''onnx/no-space'' then Inl ''OSError'' else Inr (),
            f @ [(tokenizer, SaveTokenizer p)]))\<rparr>"

definition recording_start :: "(step list, (string \<times> step) list) state" where
  "recording_start = \<lparr>stdout = [], trace = [], hub = [], fs = []\<rparr>"

section \<open>Properties\<close>

subsection \<open>Splitting and subscripting\<close>

lemma split_not_Nil: "split s sep \<noteq> []"
  by (induction s) (auto split: list.splits)

lemma split_no_sep: "sep \<notin> set s \<Longrightarrow> split s sep = [s]"
  by (induction s) auto

lemma split_append_sep: "sep \<notin> set a \<Longrightarrow> split (a @ sep # b) sep = a # split b sep"
  by (induction a) auto

lemma hd_split: "hd (split s sep) = takeWhile (\<lambda>c. c \<noteq> sep) s"
  by (induction s) (auto simp add: split_not_Nil split: list.splits)

lemma length_split: "length (split s sep) = Suc (count_list s sep)"
  by (induction s) (auto split: list.splits)

lemma decompose_at_first:
  "sep \<in> set s \<Longrightarrow>
   s = takeWhile (\<lambda>c. c \<noteq> sep) s @ sep # drop 1 (dropWhile (\<lambda>c. c \<noteq> sep) s)"
  by (induction s) auto

lemma only_one_sep:
  "count_list s sep = 1 \<Longrightarrow> sep \<notin> set (drop 1 (dropWhile (\<lambda>c. c \<noteq> sep) s))"
  by (induction s) (auto split: if_splits simp: count_list_0_iff)

lemma after_last_append:
  assumes "sep \<notin> set b"
  shows "after_last sep (a @ sep # b) = b"
proof -
  have all: "takeWhile (\<lambda>c. c \<noteq> sep) (rev b) = rev b"
    using assms by (auto simp add: takeWhile_eq_all_conv)
  have "takeWhile (\<lambda>c. c \<noteq> sep) (rev b @ sep # rev a) = takeWhile (\<lambda>c. c \<noteq> sep) (rev b)"
    using assms by (simp add: takeWhile_tail)
  then have "rev (takeWhile (\<lambda>c. c \<noteq> sep) (rev (a @ sep # b))) = rev (rev b)"
    by (simp only: all rev_append rev.simps append_assoc append_Cons append_Nil)
  then show ?thesis
    by (simp only: after_last_def rev_rev_ident)
qed

subsection \<open>The derived name and directory\<close>

lemma model_name_no_sep: "CHR ''/'' \<notin> set model_id \<Longrightarrow> model_name model_id = Inl IndexError"
  by (simp add: model_name_def subscript_def split_no_sep)

lemma model_name_first_sep:
  "CHR ''/'' \<notin> set a \<Longrightarrow>
   model_name (a @ CHR ''/'' # b) = Inr (takeWhile (\<lambda>c. c \<noteq> CHR ''/'') b)"
  using split_not_Nil [of b "CHR ''/''"] hd_split [of b "CHR ''/''"]
  by (cases "split b CHR ''/''") (auto simp add: model_name_def subscript_def split_append_sep)

lemma model_name_between:
  assumes "CHR ''/'' \<in> set model_id"
  shows "model_name model_id = Inr (between_first_two CHR ''/'' model_id)"
proof -
  define a where "a = takeWhile (\<lambda>c. c \<noteq> CHR ''/'') model_id"
  define b where "b = drop 1 (dropWhile (\<lambda>c. c \<noteq> CHR ''/'') model_id)"
  have "model_id = a @ CHR ''/'' # b"
    unfolding a_def b_def using assms by (rule decompose_at_first)
  moreover have "CHR ''/'' \<notin> set a"
    unfolding a_def by (auto dest: set_takeWhileD)
  ultimately have "model_name model_id = Inr (takeWhile (\<lambda>c. c \<noteq> CHR ''/'') b)"
    using model_name_first_sep [of a b] by simp
  then show ?thesis
    by (simp add: between_first_two_def b_def)
qed

lemma onnx_path_no_sep: "CHR ''/'' \<notin> set model_id \<Longrightarrow> onnx_path model_id = Inl IndexError"
  by (simp add: onnx_path_def model_name_no_sep)

lemma onnx_path_sep:
  "CHR ''/'' \<in> set model_id \<Longrightarrow>
   onnx_path model_id = Inr (Path (''onnx/'' @ between_first_two CHR ''/'' model_id))"
  by (simp add: onnx_path_def model_name_between)

text \<open>
  What \<open>Path\<close> makes of the string: two parts, unless the name is \<open>''.''\<close>, which
  \<open>Path\<close> drops (\<open>Path("onnx/.")\<close> is \<open>Path("onnx")\<close>, the same directory).
\<close>

lemma Path_onnx_parts:
  "CHR ''/'' \<notin> set name \<Longrightarrow> name \<noteq> [] \<Longrightarrow> name \<noteq> ''.'' \<Longrightarrow>
   Path (''onnx/'' @ name) = \<lparr>root = [], parts = [''onnx'', name]\<rparr>"
  by (simp add: Path_def splitroot_def split_no_sep)

lemma str_path_onnx:
  "CHR ''/'' \<notin> set name \<Longrightarrow> name \<noteq> [] \<Longrightarrow> name \<noteq> ''.'' \<Longrightarrow>
   str_path (Path (''onnx/'' @ name)) = ''onnx/'' @ name"
  using Path_onnx_parts [of name] by (simp add: str_path_def)

lemma Path_onnx_dot: "Path (''onnx/'' @ ''.'') = Path ''onnx''"
  by (simp add: Path_def splitroot_def)

text \<open>
  C1. For every well-formed identifier \<open>ns/name\<close> (exactly one \<open>/\<close>, both segments
  non-empty) the derived output directory is the path \<open>onnx/name\<close>: the path object
  that \<open>Path\<close> makes of that string. It has the two parts \<open>onnx\<close> and \<open>name\<close> and
  prints as \<open>onnx/name\<close>, except that for the name \<open>''.''\<close> the path \<open>onnx/.\<close> is
  kept as \<open>onnx\<close>, which is the same directory. For \<open>google/flan-t5-xl\<close> the directory
  is \<open>onnx/flan-t5-xl\<close>.
\<close>

theorem onnx_path_well_formed:
  assumes "CHR ''/'' \<notin> set ns" and "CHR ''/'' \<notin> set name" and "ns \<noteq> []" and "name \<noteq> []"
  shows "onnx_path (ns @ ''/'' @ name) = Inr (Path (''onnx/'' @ name)) \<and>
         (name \<noteq> ''.'' \<longrightarrow>
            Path (''onnx/'' @ name) = \<lparr>root = [], parts = [''onnx'', name]\<rparr> \<and>
            str_path (Path (''onnx/'' @ name)) = ''onnx/'' @ name) \<and>
         onnx_path ''google/flan-t5-xl'' = Inr (Path ''onnx/flan-t5-xl'') \<and>
         str_path (Path ''onnx/flan-t5-xl'') = ''onnx/flan-t5-xl''"
proof -
  have "takeWhile (\<lambda>c. c \<noteq> CHR ''/'') name = name"
    using assms(2) by (auto simp add: takeWhile_eq_all_conv)
  then have "model_name (ns @ CHR ''/'' # name) = Inr name"
    using model_name_first_sep [OF assms(1), of name] by simp
  then have "onnx_path (ns @ ''/'' @ name) = Inr (Path (''onnx/'' @ name))"
    by (simp add: onnx_path_def)
  moreover have "Path (''onnx/'' @ name) = \<lparr>root = [], parts = [''onnx'', name]\<rparr> \<and>
      str_path (Path (''onnx/'' @ name)) = ''onnx/'' @ name" if "name \<noteq> ''.''"
    using Path_onnx_parts [OF assms(2,4) that] str_path_onnx [OF assms(2,4) that] by (rule conjI)
  moreover have "onnx_path ''google/flan-t5-xl'' = Inr (Path ''onnx/flan-t5-xl'')"
    by (simp add: onnx_path_def model_name_def subscript_def)
  moreover have "str_path (Path ''onnx/flan-t5-xl'') = ''onnx/flan-t5-xl''"
    by (simp add: str_path_def Path_def splitroot_def)
  ultimately show ?thesis by blast
qed

theorem onnx_path_well_formed_witness:
  "CHR ''/'' \<notin> set ''google'' \<and> CHR ''/'' \<notin> set ''flan-t5-xxl'' \<and> ''google'' \<noteq> [] \<and>
   ''flan-t5-xxl'' \<noteq> [] \<and> ''flan-t5-xxl'' \<noteq> ''.'' \<and>
   onnx_path ''google/flan-t5-xxl'' = Inr (Path ''onnx/flan-t5-xxl'') \<and>
   Path ''onnx/flan-t5-xxl'' = \<lparr>root = [], parts = [''onnx'', ''flan-t5-xxl'']\<rparr> \<and>
   str_path (Path ''onnx/flan-t5-xxl'') = ''onnx/flan-t5-xxl''"
  using onnx_path_well_formed [of "''google''" "''flan-t5-xxl''"]
  by (simp add: str_path_def)

text \<open>
  C2, as stated: for every identifier with at least one \<open>/\<close> the derived name is the
  substring after the last \<open>/\<close>. The code takes the second piece of the split, so for
  \<open>a/b/c\<close> the name is \<open>b\<close> and not \<open>c\<close>.
\<close>

theorem model_name_not_after_last:
  "CHR ''/'' \<in> set ''a/b/c'' \<and> model_name ''a/b/c'' = Inr ''b'' \<and>
   after_last CHR ''/'' ''a/b/c'' = ''c'' \<and>
   model_name ''a/b/c'' \<noteq> Inr (after_last CHR ''/'' ''a/b/c'')"
  by (simp add: model_name_def subscript_def after_last_def)

text \<open>
  C2, amended: for every identifier with at least one \<open>/\<close> the derived name is the
  text between the first \<open>/\<close> and the next one (or the end of the identifier); when
  the identifier has exactly one \<open>/\<close>, this is the substring after the last \<open>/\<close>.
\<close>

theorem model_name_second_piece:
  assumes "CHR ''/'' \<in> set model_id"
  shows "model_name model_id = Inr (between_first_two CHR ''/'' model_id) \<and>
         (count_list model_id CHR ''/'' = 1 \<longrightarrow>
            model_name model_id = Inr (after_last CHR ''/'' model_id))"
proof -
  have name: "model_name model_id = Inr (between_first_two CHR ''/'' model_id)"
    using assms by (rule model_name_between)
  have "between_first_two CHR ''/'' model_id = after_last CHR ''/'' model_id"
    if one: "count_list model_id CHR ''/'' = 1"
  proof -
    define a where "a = takeWhile (\<lambda>c. c \<noteq> CHR ''/'') model_id"
    define b where "b = drop 1 (dropWhile (\<lambda>c. c \<noteq> CHR ''/'') model_id)"
    have dec: "a @ CHR ''/'' # b = model_id"
      unfolding a_def b_def using assms by (rule decompose_at_first [symmetric])
    have nb: "CHR ''/'' \<notin> set b"
      unfolding b_def using one by (rule only_one_sep)
    have tw: "takeWhile (\<lambda>c. c \<noteq> CHR ''/'') b = b"
      using nb by (auto simp add: takeWhile_eq_all_conv)
    have "between_first_two CHR ''/'' model_id = takeWhile (\<lambda>c. c \<noteq> CHR ''/'') b"
      unfolding between_first_two_def b_def by (rule refl)
    also have "\<dots> = b"
      by (rule tw)
    also have "b = after_last CHR ''/'' (a @ CHR ''/'' # b)"
      using nb by (rule after_last_append [symmetric])
    also have "\<dots> = after_last CHR ''/'' model_id"
      by (simp only: dec)
    finally show ?thesis .
  qed
  then have "count_list model_id CHR ''/'' = 1 \<longrightarrow>
      model_name model_id = Inr (after_last CHR ''/'' model_id)"
    by (simp only: name) blast
  with name show ?thesis by (rule conjI)
qed

theorem model_name_second_piece_witness:
  "CHR ''/'' \<in> set ''a/b/c'' \<and> model_name ''a/b/c'' = Inr ''b'' \<and>
   CHR ''/'' \<in> set ''google/flan-t5-xl'' \<and> count_list ''google/flan-t5-xl'' CHR ''/'' = 1 \<and>
   model_name ''google/flan-t5-xl'' = Inr (after_last CHR ''/'' ''google/flan-t5-xl'') \<and>
   after_last CHR ''/'' ''google/flan-t5-xl'' = ''flan-t5-xl''"
  using model_name_second_piece [of "''a/b/c''"] model_name_second_piece [of "''google/flan-t5-xl''"]
  by (simp add: between_first_two_def after_last_def)

subsection \<open>The loop body and the loop\<close>

text \<open>The steps of an iteration, read off the derived directory.\<close>

lemma steps_of_Inr:
  "onnx_path model_id = Inr p \<Longrightarrow>
   steps_of model_id =
     [Derived model_id p, LoadConvert model_id, LoadTokenizer model_id, SaveModel p, SaveTokenizer p]"
  by (simp add: steps_of_def)

lemma steps_of_no_sep: "CHR ''/'' \<notin> set model_id \<Longrightarrow> steps_of model_id = []"
  by (simp add: steps_of_def onnx_path_no_sep)

text \<open>
  The body of the loop, statement by statement: where it stops, and the state it leaves.
\<close>

lemma loop_body_cases:
  "loop_body env model_id s =
     (case onnx_path model_id of
        Inl e \<Rightarrow> (Inl e, s)
      | Inr p \<Rightarrow>
          (case ORTModelForSeq2SeqLM_from_pretrained env model_id (hub s) of
             (Inl x, h1) \<Rightarrow>
               (Inl (Raised x),
                s\<lparr>trace := trace s @ [Derived model_id p, LoadConvert model_id], hub := h1\<rparr>)
           | (Inr model, h1) \<Rightarrow>
               (case AutoTokenizer_from_pretrained env model_id h1 of
                  (Inl x, h2) \<Rightarrow>
                    (Inl (Raised x),
                     s\<lparr>trace := trace s @ [Derived model_id p, LoadConvert model_id,
                          LoadTokenizer model_id], hub := h2\<rparr>)
                | (Inr tokenizer, h2) \<Rightarrow>
                    (case model_save_pretrained env model p (fs s) of
                       (Inl x, f1) \<Rightarrow>
                         (Inl (Raised x),
                          s\<lparr>trace := trace s @ [Derived model_id p, LoadConvert model_id,
                               LoadTokenizer model_id, SaveModel p], hub := h2, fs := f1\<rparr>)
                     | (Inr u, f1) \<Rightarrow>
                         (case tokenizer_save_pretrained env tokenizer p f1 of
                            (r, f2) \<Rightarrow>
                              (case r of Inl x \<Rightarrow> Inl (Raised x) | Inr u \<Rightarrow> Inr u,
                               s\<lparr>trace := trace s @ [Derived model_id p, LoadConvert model_id,
                                    LoadTokenizer model_id, SaveModel p, SaveTokenizer p],
                                 hub := h2, fs := f2\<rparr>))))))"
  by (simp add: loop_body_def and_then_def derive_path_def load_convert_def load_tokenizer_def
      save_model_def save_tokenizer_def split: sum.splits prod.splits)

text \<open>A run over a list is the run over its front, then over its back.\<close>

lemma for_loop_append:
  "for_loop env (xs @ ys) s =
     (case for_loop env xs s of
        (Inl e, s') \<Rightarrow> (Inl e, s')
      | (Inr u, s') \<Rightarrow> for_loop env ys s')"
  by (induction xs arbitrary: s) (auto split: prod.splits sum.splits)

text \<open>
  An iteration adds an initial piece of its steps to the trace, and all of them when it
  completes; so does the loop.
\<close>

lemma loop_body_trace:
  "\<exists>k. trace (snd (loop_body env model_id s)) = trace s @ take k (steps_of model_id)"
proof (cases "onnx_path model_id")
  case (Inl e)
  then show ?thesis by (simp add: loop_body_cases)
next
  case (Inr p)
  note st = steps_of_Inr [OF Inr]
  have "trace (snd (loop_body env model_id s)) = trace s @ take 2 (steps_of model_id)
      \<or> trace (snd (loop_body env model_id s)) = trace s @ take 3 (steps_of model_id)
      \<or> trace (snd (loop_body env model_id s)) = trace s @ take 4 (steps_of model_id)
      \<or> trace (snd (loop_body env model_id s)) = trace s @ take 5 (steps_of model_id)"
    by (simp add: loop_body_cases Inr st split: prod.splits sum.splits)
  then show ?thesis by blast
qed

lemma loop_body_trace_ok:
  "fst (loop_body env model_id s) = Inr u \<Longrightarrow>
   trace (snd (loop_body env model_id s)) = trace s @ steps_of model_id"
  by (cases "onnx_path model_id")
     (auto simp add: loop_body_cases steps_of_Inr split: prod.splits sum.splits)

lemma take_as_take_append: "\<exists>j. take k a = take j (a @ b)"
proof (cases "k \<le> length a")
  case True
  then have "take k a = take k (a @ b)" by simp
  then show ?thesis by blast
next
  case False
  then have "take k a = take (length a) (a @ b)" by simp
  then show ?thesis by blast
qed

lemma for_loop_trace:
  "\<exists>k. trace (snd (for_loop env ms s)) = trace s @ take k (concat (map steps_of ms))"
proof (induction ms arbitrary: s)
  case Nil
  then show ?case by simp
next
  case (Cons m ms)
  obtain r s1 where b: "loop_body env m s = (r, s1)" by (cases "loop_body env m s")
  obtain k where k: "trace s1 = trace s @ take k (steps_of m)"
    using loop_body_trace [of env m s] b by auto
  show ?case
  proof (cases r)
    case (Inl e)
    obtain j where "take k (steps_of m) = take j (steps_of m @ concat (map steps_of ms))"
      using take_as_take_append by blast
    then have "trace (snd (for_loop env (m # ms) s)) = trace s @ take j (concat (map steps_of (m # ms)))"
      using b Inl k by simp
    then show ?thesis by blast
  next
    case (Inr u)
    have full: "trace s1 = trace s @ steps_of m"
      using loop_body_trace_ok [of env m s u] b Inr by simp
    obtain j where "trace (snd (for_loop env ms s1)) = trace s1 @ take j (concat (map steps_of ms))"
      using Cons.IH [of s1] by blast
    then have "trace (snd (for_loop env (m # ms) s)) =
        trace s @ take (length (steps_of m) + j) (concat (map steps_of (m # ms)))"
      using b Inr full by simp
    then show ?thesis by blast
  qed
qed

lemma for_loop_trace_ok:
  "fst (for_loop env ms s) = Inr u \<Longrightarrow>
   trace (snd (for_loop env ms s)) = trace s @ concat (map steps_of ms)"
proof (induction ms arbitrary: s)
  case Nil
  then show ?case by simp
next
  case (Cons m ms)
  obtain r s1 where b: "loop_body env m s = (r, s1)" by (cases "loop_body env m s")
  show ?case
  proof (cases r)
    case (Inl e)
    then show ?thesis using Cons.prems b by simp
  next
    case (Inr v)
    have "trace s1 = trace s @ steps_of m"
      using loop_body_trace_ok [of env m s v] b Inr by simp
    moreover have "trace (snd (for_loop env ms s1)) = trace s1 @ concat (map steps_of ms)"
      using Cons.prems b Inr by (intro Cons.IH) simp
    ultimately show ?thesis using b Inr by simp
  qed
qed

lemma loop_body_no_sep:
  "CHR ''/'' \<notin> set model_id \<Longrightarrow> loop_body env model_id s = (Inl IndexError, s)"
  by (simp add: loop_body_cases onnx_path_no_sep)

text \<open>
  External calls on concrete inputs are evaluated with these equations.
\<close>

lemmas run_simps =
  loop_body_cases stub_library_def start_def onnx_path_def model_name_def subscript_def
  Path_def splitroot_def

text \<open>The calls of the recording library.\<close>

lemma recording_calls:
  "ORTModelForSeq2SeqLM_from_pretrained recording_library model_id h =
     (if model_id = ''google/no-such-model'' then Inl ''OSError''
      else Inr (''model of '' @ model_id), h @ [LoadConvert model_id])"
  "AutoTokenizer_from_pretrained recording_library model_id h =
     (if model_id = ''google/no-tokenizer'' then Inl ''OSError''
      else Inr (''tokenizer of '' @ model_id), h @ [LoadTokenizer model_id])"
  "model_save_pretrained recording_library model p g =
     (if p = Path ''onnx/read-only'' then Inl ''PermissionError'' else Inr (),
      g @ [(model, SaveModel p)])"
  "tokenizer_save_pretrained recording_library tokenizer p g =
     (if p = Path ''onnx/no-space'' then Inl ''OSError'' else Inr (),
      g @ [(tokenizer, SaveTokenizer p)])"
  by (simp_all add: recording_library_def)

lemmas recording_simps =
  loop_body_cases recording_calls recording_start_def onnx_path_def model_name_def
  subscript_def Path_def splitroot_def

subsection \<open>Failures\<close>

text \<open>
  C3. For an identifier without \<open>/\<close> the split has one piece, so the subscript
  \<open>[1]\<close> raises \<open>IndexError\<close>. The run then ends in the state the identifiers before
  it left: no step is added to the trace for this identifier or for a later one, and
  neither the hub nor the filesystem is touched again.
\<close>

theorem for_loop_no_sep:
  assumes "CHR ''/'' \<notin> set model_id"
  shows "length (split model_id CHR ''/'') = 1 \<and>
         model_name model_id = Inl IndexError \<and>
         for_loop env (pre @ model_id # post) s =
           (case for_loop env pre s of
              (Inl e, s') \<Rightarrow> (Inl e, s')
            | (Inr u, s') \<Rightarrow> (Inl IndexError, s')) \<and>
         snd (for_loop env (pre @ model_id # post) s) = snd (for_loop env pre s)"
proof -
  have "length (split model_id CHR ''/'') = 1"
    using assms by (simp add: split_no_sep)
  moreover have "model_name model_id = Inl IndexError"
    using assms by (rule model_name_no_sep)
  moreover have run: "for_loop env (pre @ model_id # post) s =
      (case for_loop env pre s of
         (Inl e, s') \<Rightarrow> (Inl e, s')
       | (Inr u, s') \<Rightarrow> (Inl IndexError, s'))"
    using assms
    by (simp add: for_loop_append loop_body_no_sep split: prod.splits sum.splits)
  moreover have "snd (for_loop env (pre @ model_id # post) s) = snd (for_loop env pre s)"
    by (simp add: run split: prod.splits sum.splits)
  ultimately show ?thesis by blast
qed

theorem for_loop_no_sep_witness:
  "CHR ''/'' \<notin> set ''flan-t5-xxl'' \<and>
   model_name ''flan-t5-xxl'' = Inl IndexError \<and>
   for_loop stub_library [''google/flan-t5-xl'', ''flan-t5-xxl'', ''google/flan-t5-xxl''] start =
     (Inl IndexError,
      \<lparr>stdout = [],
       trace = [Derived ''google/flan-t5-xl'' (Path ''onnx/flan-t5-xl''),
                LoadConvert ''google/flan-t5-xl'', LoadTokenizer ''google/flan-t5-xl'',
                SaveModel (Path ''onnx/flan-t5-xl''), SaveTokenizer (Path ''onnx/flan-t5-xl'')],
       hub = 2,
       fs = [(Path ''onnx/flan-t5-xl'', ''model.onnx'') \<mapsto> ''model of google/flan-t5-xl'',
             (Path ''onnx/flan-t5-xl'', ''tokenizer.json'') \<mapsto> ''tokenizer of google/flan-t5-xl'']\<rparr>)"
  using for_loop_no_sep [of "''flan-t5-xxl''" stub_library "[''google/flan-t5-xl'']"
      "[''google/flan-t5-xxl'']" start]
  by (simp add: run_simps)

text \<open>
  C4. When the identifiers before model \<open>i\<close> have been processed and the conversion
  call raises for model \<open>i\<close>, the run ends with that exception. The trace gains the
  derivation and the conversion call of model \<open>i\<close> and nothing else: no save call for
  model \<open>i\<close>, no step for a later model. The filesystem is the one the models before
  \<open>i\<close> left.
\<close>

theorem conversion_raises:
  assumes "for_loop env pre s = (Inr (), s1)"
    and "onnx_path model_id = Inr p"
    and "ORTModelForSeq2SeqLM_from_pretrained env model_id (hub s1) = (Inl x, h)"
  shows "for_loop env (pre @ model_id # post) s =
           (Inl (Raised x),
            s1\<lparr>trace := trace s1 @ [Derived model_id p, LoadConvert model_id], hub := h\<rparr>) \<and>
         fs (snd (for_loop env (pre @ model_id # post) s)) = fs s1"
proof -
  have "loop_body env model_id s1 =
      (Inl (Raised x),
       s1\<lparr>trace := trace s1 @ [Derived model_id p, LoadConvert model_id], hub := h\<rparr>)"
    using assms(2,3) by (simp add: loop_body_cases)
  then have "for_loop env (pre @ model_id # post) s =
      (Inl (Raised x),
       s1\<lparr>trace := trace s1 @ [Derived model_id p, LoadConvert model_id], hub := h\<rparr>)"
    using assms(1) by (simp add: for_loop_append)
  then show ?thesis by simp
qed

theorem conversion_raises_witness:
  "for_loop stub_library [''google/flan-t5-xl''] start =
     (Inr (),
      \<lparr>stdout = [],
       trace = [Derived ''google/flan-t5-xl'' (Path ''onnx/flan-t5-xl''),
                LoadConvert ''google/flan-t5-xl'', LoadTokenizer ''google/flan-t5-xl'',
                SaveModel (Path ''onnx/flan-t5-xl''), SaveTokenizer (Path ''onnx/flan-t5-xl'')],
       hub = 2,
       fs = [(Path ''onnx/flan-t5-xl'', ''model.onnx'') \<mapsto> ''model of google/flan-t5-xl'',
             (Path ''onnx/flan-t5-xl'', ''tokenizer.json'') \<mapsto> ''tokenizer of google/flan-t5-xl'']\<rparr>) \<and>
   onnx_path ''google/no-such-model'' = Inr (Path ''onnx/no-such-model'') \<and>
   ORTModelForSeq2SeqLM_from_pretrained stub_library ''google/no-such-model'' 2 = (Inl ''OSError'', 3) \<and>
   for_loop stub_library [''google/flan-t5-xl'', ''google/no-such-model'', ''google/flan-t5-xxl''] start =
     (Inl (Raised ''OSError''),
      \<lparr>stdout = [],
       trace = [Derived ''google/flan-t5-xl'' (Path ''onnx/flan-t5-xl''),
                LoadConvert ''google/flan-t5-xl'', LoadTokenizer ''google/flan-t5-xl'',
                SaveModel (Path ''onnx/flan-t5-xl''), SaveTokenizer (Path ''onnx/flan-t5-xl''),
                Derived ''google/no-such-model'' (Path ''onnx/no-such-model''),
                LoadConvert ''google/no-such-model''],
       hub = 3,
       fs = [(Path ''onnx/flan-t5-xl'', ''model.onnx'') \<mapsto> ''model of google/flan-t5-xl'',
             (Path ''onnx/flan-t5-xl'', ''tokenizer.json'') \<mapsto> ''tokenizer of google/flan-t5-xl'']\<rparr>)"
proof -
  let ?s1 = "\<lparr>stdout = [],
       trace = [Derived ''google/flan-t5-xl'' (Path ''onnx/flan-t5-xl''),
                LoadConvert ''google/flan-t5-xl'', LoadTokenizer ''google/flan-t5-xl'',
                SaveModel (Path ''onnx/flan-t5-xl''), SaveTokenizer (Path ''onnx/flan-t5-xl'')],
       hub = 2 :: nat,
       fs = [(Path ''onnx/flan-t5-xl'', ''model.onnx'') \<mapsto> ''model of google/flan-t5-xl'',
             (Path ''onnx/flan-t5-xl'', ''tokenizer.json'') \<mapsto> ''tokenizer of google/flan-t5-xl'']\<rparr>"
  have a: "for_loop stub_library [''google/flan-t5-xl''] start = (Inr (), ?s1)"
    by (simp add: run_simps)
  have b: "onnx_path ''google/no-such-model'' = Inr (Path ''onnx/no-such-model'')"
    by (simp add: run_simps)
  have c: "ORTModelForSeq2SeqLM_from_pretrained stub_library ''google/no-such-model'' (hub ?s1) =
      (Inl ''OSError'', 3)"
    by (simp add: stub_library_def)
  show ?thesis
    using conversion_raises [OF a b c, of "[''google/flan-t5-xxl'']"] a b c by simp
qed

text \<open>
  C10. When the conversion of model \<open>i\<close> succeeds and the tokenizer-loading call
  raises, the run ends with that exception after the two loading calls: the trace has
  no save call for model \<open>i\<close>, and the filesystem is unchanged.
\<close>

theorem tokenizer_raises:
  assumes "for_loop env pre s = (Inr (), s1)"
    and "onnx_path model_id = Inr p"
    and "ORTModelForSeq2SeqLM_from_pretrained env model_id (hub s1) = (Inr model, h1)"
    and "AutoTokenizer_from_pretrained env model_id h1 = (Inl x, h2)"
  shows "for_loop env (pre @ model_id # post) s =
           (Inl (Raised x),
            s1\<lparr>trace := trace s1 @ [Derived model_id p, LoadConvert model_id,
                  LoadTokenizer model_id], hub := h2\<rparr>) \<and>
         fs (snd (for_loop env (pre @ model_id # post) s)) = fs s1"
proof -
  have "loop_body env model_id s1 =
      (Inl (Raised x),
       s1\<lparr>trace := trace s1 @ [Derived model_id p, LoadConvert model_id,
             LoadTokenizer model_id], hub := h2\<rparr>)"
    using assms(2,3,4) by (simp add: loop_body_cases)
  then have "for_loop env (pre @ model_id # post) s =
      (Inl (Raised x),
       s1\<lparr>trace := trace s1 @ [Derived model_id p, LoadConvert model_id,
             LoadTokenizer model_id], hub := h2\<rparr>)"
    using assms(1) by (simp add: for_loop_append)
  then show ?thesis by simp
qed

theorem tokenizer_raises_witness:
  "for_loop stub_library [] start = (Inr (), start) \<and>
   onnx_path ''google/no-tokenizer'' = Inr (Path ''onnx/no-tokenizer'') \<and>
   ORTModelForSeq2SeqLM_from_pretrained stub_library ''google/no-tokenizer'' (hub start) =
     (Inr ''model of google/no-tokenizer'', 1) \<and>
   AutoTokenizer_from_pretrained stub_library ''google/no-tokenizer'' 1 = (Inl ''OSError'', 2) \<and>
   for_loop stub_library [''google/no-tokenizer'', ''google/flan-t5-xxl''] start =
     (Inl (Raised ''OSError''),
      \<lparr>stdout = [],
       trace = [Derived ''google/no-tokenizer'' (Path ''onnx/no-tokenizer''),
                LoadConvert ''google/no-tokenizer'', LoadTokenizer ''google/no-tokenizer''],
       hub = 2, fs = Map.empty\<rparr>)"
proof -
  have a: "for_loop stub_library [] start = (Inr (), start)"
    by simp
  have b: "onnx_path ''google/no-tokenizer'' = Inr (Path ''onnx/no-tokenizer'')"
    by (simp add: run_simps)
  have c: "ORTModelForSeq2SeqLM_from_pretrained stub_library ''google/no-tokenizer'' (hub start) =
      (Inr ''model of google/no-tokenizer'', 1)"
    by (simp add: stub_library_def start_def)
  have d: "AutoTokenizer_from_pretrained stub_library ''google/no-tokenizer'' 1 = (Inl ''OSError'', 2)"
    by (simp add: stub_library_def)
  show ?thesis
    using tokenizer_raises [OF a b c d, of "[''google/flan-t5-xxl'']"] a b c d
    by (simp add: start_def)
qed

subsection \<open>Order of the calls\<close>

text \<open>
  C5. Models are processed in list order without interleaving, and the calls of one
  iteration are made in a fixed order. For any library and any position in the list:
  the identifier at that position is processed once the identifiers before it have all
  been processed, in the state they left, and not at all if one of them raised. Its
  output directory is derived first; then the load-and-convert call is made on the hub
  as it stands; then the tokenizer-loading call on the hub the conversion left; then
  the save of the model that was loaded; then the save of the tokenizer on the
  filesystem the first save left. The first exception ends the run in the state reached
  so far. The identifiers after it are processed from the state it left. The trace
  follows: it grows by an initial piece of the steps of the identifiers in list order,
  and by all of them in a run that completes.
\<close>

theorem for_loop_order:
  "for_loop env [] s = (Inr (), s) \<and>
   for_loop env (pre @ model_id # post) s =
     (case for_loop env pre s of
        (Inl e, s1) \<Rightarrow> (Inl e, s1)
      | (Inr u, s1) \<Rightarrow>
          (case onnx_path model_id of
             Inl e \<Rightarrow> (Inl e, s1)
           | Inr p \<Rightarrow>
               (case ORTModelForSeq2SeqLM_from_pretrained env model_id (hub s1) of
                  (Inl x, h1) \<Rightarrow>
                    (Inl (Raised x),
                     s1\<lparr>trace := trace s1 @ [Derived model_id p, LoadConvert model_id],
                        hub := h1\<rparr>)
                | (Inr model, h1) \<Rightarrow>
                    (case AutoTokenizer_from_pretrained env model_id h1 of
                       (Inl x, h2) \<Rightarrow>
                         (Inl (Raised x),
                          s1\<lparr>trace := trace s1 @ [Derived model_id p, LoadConvert model_id,
                               LoadTokenizer model_id], hub := h2\<rparr>)
                     | (Inr tokenizer, h2) \<Rightarrow>
                         (case model_save_pretrained env model p (fs s1) of
                            (Inl x, f1) \<Rightarrow>
                              (Inl (Raised x),
                               s1\<lparr>trace := trace s1 @ [Derived model_id p, LoadConvert model_id,
                                    LoadTokenizer model_id, SaveModel p], hub := h2, fs := f1\<rparr>)
                          | (Inr u, f1) \<Rightarrow>
                              (case tokenizer_save_pretrained env tokenizer p f1 of
                                 (Inl x, f2) \<Rightarrow>
                                   (Inl (Raised x),
                                    s1\<lparr>trace := trace s1 @ [Derived model_id p,
                                         LoadConvert model_id, LoadTokenizer model_id,
                                         SaveModel p, SaveTokenizer p], hub := h2, fs := f2\<rparr>)
                               | (Inr u, f2) \<Rightarrow>
                                   for_loop env post
                                     (s1\<lparr>trace := trace s1 @ [Derived model_id p,
                                          LoadConvert model_id, LoadTokenizer model_id,
                                          SaveModel p, SaveTokenizer p],
                                        hub := h2, fs := f2\<rparr>))))))) \<and>
   (\<exists>k. trace (snd (for_loop env ms s)) = trace s @ take k (concat (map steps_of ms))) \<and>
   (fst (for_loop env ms s) = Inr () \<longrightarrow>
      trace (snd (for_loop env ms s)) = trace s @ concat (map steps_of ms))"
proof (intro conjI)
  show "for_loop env [] s = (Inr (), s)"
    by simp
  show "for_loop env (pre @ model_id # post) s =
     (case for_loop env pre s of
        (Inl e, s1) \<Rightarrow> (Inl e, s1)
      | (Inr u, s1) \<Rightarrow>
          (case onnx_path model_id of
             Inl e \<Rightarrow> (Inl e, s1)
           | Inr p \<Rightarrow>
               (case ORTModelForSeq2SeqLM_from_pretrained env model_id (hub s1) of
                  (Inl x, h1) \<Rightarrow>
                    (Inl (Raised x),
                     s1\<lparr>trace := trace s1 @ [Derived model_id p, LoadConvert model_id],
                        hub := h1\<rparr>)
                | (Inr model, h1) \<Rightarrow>
                    (case AutoTokenizer_from_pretrained env model_id h1 of
                       (Inl x, h2) \<Rightarrow>
                         (Inl (Raised x),
                          s1\<lparr>trace := trace s1 @ [Derived model_id p, LoadConvert model_id,
                               LoadTokenizer model_id], hub := h2\<rparr>)
                     | (Inr tokenizer, h2) \<Rightarrow>
                         (case model_save_pretrained env model p (fs s1) of
                            (Inl x, f1) \<Rightarrow>
                              (Inl (Raised x),
                               s1\<lparr>trace := trace s1 @ [Derived model_id p, LoadConvert model_id,
                                    LoadTokenizer model_id, SaveModel p], hub := h2, fs := f1\<rparr>)
                          | (Inr u, f1) \<Rightarrow>
                              (case tokenizer_save_pretrained env tokenizer p f1 of
                                 (Inl x, f2) \<Rightarrow>
                                   (Inl (Raised x),
                                    s1\<lparr>trace := trace s1 @ [Derived model_id p,
                                         LoadConvert model_id, LoadTokenizer model_id,
                                         SaveModel p, SaveTokenizer p], hub := h2, fs := f2\<rparr>)
                               | (Inr u, f2) \<Rightarrow>
                                   for_loop env post
                                     (s1\<lparr>trace := trace s1 @ [Derived model_id p,
                                          LoadConvert model_id, LoadTokenizer model_id,
                                          SaveModel p, SaveTokenizer p],
                                        hub := h2, fs := f2\<rparr>)))))))"
    by (simp add: for_loop_append loop_body_cases split: prod.splits sum.splits)
  show "\<exists>k. trace (snd (for_loop env ms s)) = trace s @ take k (concat (map steps_of ms))"
    by (rule for_loop_trace)
  show "fst (for_loop env ms s) = Inr () \<longrightarrow>
      trace (snd (for_loop env ms s)) = trace s @ concat (map steps_of ms)"
    using for_loop_trace_ok [of env ms s "()"] by blast
qed

theorem for_loop_order_witness:
  "for_loop recording_library models recording_start =
     (Inr (),
      \<lparr>stdout = [],
       trace = [Derived ''google/flan-t5-xl'' (Path ''onnx/flan-t5-xl''),
                LoadConvert ''google/flan-t5-xl'', LoadTokenizer ''google/flan-t5-xl'',
                SaveModel (Path ''onnx/flan-t5-xl''), SaveTokenizer (Path ''onnx/flan-t5-xl''),
                Derived ''google/flan-t5-xxl'' (Path ''onnx/flan-t5-xxl''),
                LoadConvert ''google/flan-t5-xxl'', LoadTokenizer ''google/flan-t5-xxl'',
                SaveModel (Path ''onnx/flan-t5-xxl''), SaveTokenizer (Path ''onnx/flan-t5-xxl'')],
       hub = [LoadConvert ''google/flan-t5-xl'', LoadTokenizer ''google/flan-t5-xl'',
              LoadConvert ''google/flan-t5-xxl'', LoadTokenizer ''google/flan-t5-xxl''],
       fs = [(''model of google/flan-t5-xl'', SaveModel (Path ''onnx/flan-t5-xl'')),
             (''tokenizer of google/flan-t5-xl'', SaveTokenizer (Path ''onnx/flan-t5-xl'')),
             (''model of google/flan-t5-xxl'', SaveModel (Path ''onnx/flan-t5-xxl'')),
             (''tokenizer of google/flan-t5-xxl'', SaveTokenizer (Path ''onnx/flan-t5-xxl''))]\<rparr>) \<and>
   for_loop recording_library [''google/no-space'', ''google/flan-t5-xl''] recording_start =
     (Inl (Raised ''OSError''),
      \<lparr>stdout = [],
       trace = [Derived ''google/no-space'' (Path ''onnx/no-space''),
                LoadConvert ''google/no-space'', LoadTokenizer ''google/no-space'',
                SaveModel (Path ''onnx/no-space''), SaveTokenizer (Path ''onnx/no-space'')],
       hub = [LoadConvert ''google/no-space'', LoadTokenizer ''google/no-space''],
       fs = [(''model of google/no-space'', SaveModel (Path ''onnx/no-space'')),
             (''tokenizer of google/no-space'', SaveTokenizer (Path ''onnx/no-space''))]\<rparr>)"
proof -
  have first: "for_loop recording_library [''google/flan-t5-xl''] recording_start =
     (Inr (),
      \<lparr>stdout = [],
       trace = [Derived ''google/flan-t5-xl'' (Path ''onnx/flan-t5-xl''),
                LoadConvert ''google/flan-t5-xl'', LoadTokenizer ''google/flan-t5-xl'',
                SaveModel (Path ''onnx/flan-t5-xl''), SaveTokenizer (Path ''onnx/flan-t5-xl'')],
       hub = [LoadConvert ''google/flan-t5-xl'', LoadTokenizer ''google/flan-t5-xl''],
       fs = [(''model of google/flan-t5-xl'', SaveModel (Path ''onnx/flan-t5-xl'')),
             (''tokenizer of google/flan-t5-xl'', SaveTokenizer (Path ''onnx/flan-t5-xl''))]\<rparr>)"
    by (simp add: recording_simps)
  have xxl: "onnx_path ''google/flan-t5-xxl'' = Inr (Path ''onnx/flan-t5-xxl'')"
    by (simp add: recording_simps)
  have ns: "onnx_path ''google/no-space'' = Inr (Path ''onnx/no-space'')"
    by (simp add: recording_simps)
  have step: "for_loop recording_library ([''google/flan-t5-xl''] @ ''google/flan-t5-xxl'' # [])
      recording_start =
     (Inr (),
      \<lparr>stdout = [],
       trace = [Derived ''google/flan-t5-xl'' (Path ''onnx/flan-t5-xl''),
                LoadConvert ''google/flan-t5-xl'', LoadTokenizer ''google/flan-t5-xl'',
                SaveModel (Path ''onnx/flan-t5-xl''), SaveTokenizer (Path ''onnx/flan-t5-xl''),
                Derived ''google/flan-t5-xxl'' (Path ''onnx/flan-t5-xxl''),
                LoadConvert ''google/flan-t5-xxl'', LoadTokenizer ''google/flan-t5-xxl'',
                SaveModel (Path ''onnx/flan-t5-xxl''), SaveTokenizer (Path ''onnx/flan-t5-xxl'')],
       hub = [LoadConvert ''google/flan-t5-xl'', LoadTokenizer ''google/flan-t5-xl'',
              LoadConvert ''google/flan-t5-xxl'', LoadTokenizer ''google/flan-t5-xxl''],
       fs = [(''model of google/flan-t5-xl'', SaveModel (Path ''onnx/flan-t5-xl'')),
             (''tokenizer of google/flan-t5-xl'', SaveTokenizer (Path ''onnx/flan-t5-xl'')),
             (''model of google/flan-t5-xxl'', SaveModel (Path ''onnx/flan-t5-xxl'')),
             (''tokenizer of google/flan-t5-xxl'', SaveTokenizer (Path ''onnx/flan-t5-xxl''))]\<rparr>)"
    by (simp only: for_loop_order [of recording_library recording_start "[''google/flan-t5-xl'']"
          "''google/flan-t5-xxl''" "[]" "[]", THEN conjunct2, THEN conjunct1] first)
       (simp add: xxl recording_calls Path_def splitroot_def)
  have stop: "for_loop recording_library ([] @ ''google/no-space'' # [''google/flan-t5-xl''])
      recording_start =
     (Inl (Raised ''OSError''),
      \<lparr>stdout = [],
       trace = [Derived ''google/no-space'' (Path ''onnx/no-space''),
                LoadConvert ''google/no-space'', LoadTokenizer ''google/no-space'',
                SaveModel (Path ''onnx/no-space''), SaveTokenizer (Path ''onnx/no-space'')],
       hub = [LoadConvert ''google/no-space'', LoadTokenizer ''google/no-space''],
       fs = [(''model of google/no-space'', SaveModel (Path ''onnx/no-space'')),
             (''tokenizer of google/no-space'', SaveTokenizer (Path ''onnx/no-space''))]\<rparr>)"
    by (simp only: for_loop_order [of recording_library recording_start "[]"
          "''google/no-space''" "[''google/flan-t5-xl'']" "[]", THEN conjunct2, THEN conjunct1]
          for_loop_order [of recording_library recording_start, THEN conjunct1])
       (simp add: ns recording_calls recording_start_def Path_def splitroot_def)
  from step stop show ?thesis
    by (simp add: models_def)
qed

text \<open>
  C7. In every iteration the tokenizer-loading call is made with the identifier that
  the load-and-convert call was made with, and both save calls are made with the
  directory derived from it. For any library, whatever the outcome of each call, the
  state the iteration ends in is the one these calls leave: the conversion of
  \<open>model_id\<close> on the hub, the tokenizer of \<open>model_id\<close> on the hub the conversion left,
  the model that was loaded saved into the derived directory, the tokenizer that was
  loaded saved into the same directory. The trace of the iteration names no other
  identifier and no other directory.
\<close>

theorem loop_body_arguments:
  "(onnx_path model_id = Inr p \<and>
    ORTModelForSeq2SeqLM_from_pretrained env model_id (hub s) = (Inl x, ha) \<longrightarrow>
      loop_body env model_id s =
        (Inl (Raised x),
         s\<lparr>trace := trace s @ [Derived model_id p, LoadConvert model_id], hub := ha\<rparr>)) \<and>
   (onnx_path model_id = Inr p \<and>
    ORTModelForSeq2SeqLM_from_pretrained env model_id (hub s) = (Inr model, ha) \<and>
    AutoTokenizer_from_pretrained env model_id ha = (Inl x, hb) \<longrightarrow>
      loop_body env model_id s =
        (Inl (Raised x),
         s\<lparr>trace := trace s @ [Derived model_id p, LoadConvert model_id,
               LoadTokenizer model_id], hub := hb\<rparr>)) \<and>
   (onnx_path model_id = Inr p \<and>
    ORTModelForSeq2SeqLM_from_pretrained env model_id (hub s) = (Inr model, ha) \<and>
    AutoTokenizer_from_pretrained env model_id ha = (Inr tokenizer, hb) \<and>
    model_save_pretrained env model p (fs s) = (Inl x, fa) \<longrightarrow>
      loop_body env model_id s =
        (Inl (Raised x),
         s\<lparr>trace := trace s @ [Derived model_id p, LoadConvert model_id,
               LoadTokenizer model_id, SaveModel p], hub := hb, fs := fa\<rparr>)) \<and>
   (onnx_path model_id = Inr p \<and>
    ORTModelForSeq2SeqLM_from_pretrained env model_id (hub s) = (Inr model, ha) \<and>
    AutoTokenizer_from_pretrained env model_id ha = (Inr tokenizer, hb) \<and>
    model_save_pretrained env model p (fs s) = (Inr (), fa) \<and>
    tokenizer_save_pretrained env tokenizer p fa = (Inl x, fb) \<longrightarrow>
      loop_body env model_id s =
        (Inl (Raised x),
         s\<lparr>trace := trace s @ [Derived model_id p, LoadConvert model_id,
               LoadTokenizer model_id, SaveModel p, SaveTokenizer p], hub := hb, fs := fb\<rparr>)) \<and>
   (onnx_path model_id = Inr p \<and>
    ORTModelForSeq2SeqLM_from_pretrained env model_id (hub s) = (Inr model, ha) \<and>
    AutoTokenizer_from_pretrained env model_id ha = (Inr tokenizer, hb) \<and>
    model_save_pretrained env model p (fs s) = (Inr (), fa) \<and>
    tokenizer_save_pretrained env tokenizer p fa = (Inr (), fb) \<longrightarrow>
      loop_body env model_id s =
        (Inr (),
         s\<lparr>trace := trace s @ [Derived model_id p, LoadConvert model_id,
               LoadTokenizer model_id, SaveModel p, SaveTokenizer p], hub := hb, fs := fb\<rparr>)) \<and>
   (\<exists>tr. trace (snd (loop_body env model_id s)) = trace s @ tr \<and>
      (\<forall>a. LoadConvert a \<in> set tr \<longrightarrow> a = model_id) \<and>
      (\<forall>b. LoadTokenizer b \<in> set tr \<longrightarrow> b = model_id) \<and>
      (\<forall>p. SaveModel p \<in> set tr \<longrightarrow> onnx_path model_id = Inr p) \<and>
      (\<forall>q. SaveTokenizer q \<in> set tr \<longrightarrow> onnx_path model_id = Inr q) \<and>
      (fst (loop_body env model_id s) = Inr () \<longrightarrow>
         (\<exists>p. onnx_path model_id = Inr p \<and>
            tr = [Derived model_id p, LoadConvert model_id, LoadTokenizer model_id,
                  SaveModel p, SaveTokenizer p])))"
proof -
  have calls:
    "onnx_path model_id = Inr p \<and>
     ORTModelForSeq2SeqLM_from_pretrained env model_id (hub s) = (Inl x, ha) \<longrightarrow>
      loop_body env model_id s =
        (Inl (Raised x),
         s\<lparr>trace := trace s @ [Derived model_id p, LoadConvert model_id], hub := ha\<rparr>)"
    "onnx_path model_id = Inr p \<and>
     ORTModelForSeq2SeqLM_from_pretrained env model_id (hub s) = (Inr model, ha) \<and>
     AutoTokenizer_from_pretrained env model_id ha = (Inl x, hb) \<longrightarrow>
      loop_body env model_id s =
        (Inl (Raised x),
         s\<lparr>trace := trace s @ [Derived model_id p, LoadConvert model_id,
               LoadTokenizer model_id], hub := hb\<rparr>)"
    "onnx_path model_id = Inr p \<and>
     ORTModelForSeq2SeqLM_from_pretrained env model_id (hub s) = (Inr model, ha) \<and>
     AutoTokenizer_from_pretrained env model_id ha = (Inr tokenizer, hb) \<and>
     model_save_pretrained env model p (fs s) = (Inl x, fa) \<longrightarrow>
      loop_body env model_id s =
        (Inl (Raised x),
         s\<lparr>trace := trace s @ [Derived model_id p, LoadConvert model_id,
               LoadTokenizer model_id, SaveModel p], hub := hb, fs := fa\<rparr>)"
    "onnx_path model_id = Inr p \<and>
     ORTModelForSeq2SeqLM_from_pretrained env model_id (hub s) = (Inr model, ha) \<and>
     AutoTokenizer_from_pretrained env model_id ha = (Inr tokenizer, hb) \<and>
     model_save_pretrained env model p (fs s) = (Inr (), fa) \<and>
     tokenizer_save_pretrained env tokenizer p fa = (Inl x, fb) \<longrightarrow>
      loop_body env model_id s =
        (Inl (Raised x),
         s\<lparr>trace := trace s @ [Derived model_id p, LoadConvert model_id,
               LoadTokenizer model_id, SaveModel p, SaveTokenizer p], hub := hb, fs := fb\<rparr>)"
    "onnx_path model_id = Inr p \<and>
     ORTModelForSeq2SeqLM_from_pretrained env model_id (hub s) = (Inr model, ha) \<and>
     AutoTokenizer_from_pretrained env model_id ha = (Inr tokenizer, hb) \<and>
     model_save_pretrained env model p (fs s) = (Inr (), fa) \<and>
     tokenizer_save_pretrained env tokenizer p fa = (Inr (), fb) \<longrightarrow>
      loop_body env model_id s =
        (Inr (),
         s\<lparr>trace := trace s @ [Derived model_id p, LoadConvert model_id,
               LoadTokenizer model_id, SaveModel p, SaveTokenizer p], hub := hb, fs := fb\<rparr>)"
    by (simp_all add: loop_body_cases)
  obtain k where k: "trace (snd (loop_body env model_id s)) = trace s @ take k (steps_of model_id)"
    using loop_body_trace by blast
  have sub: "y \<in> set (steps_of model_id)" if "y \<in> set (take k (steps_of model_id))" for y
    using that by (rule in_set_takeD)
  have mem: "y \<in> set (steps_of model_id) \<Longrightarrow>
      \<exists>q. onnx_path model_id = Inr q \<and>
        y \<in> {Derived model_id q, LoadConvert model_id, LoadTokenizer model_id,
              SaveModel q, SaveTokenizer q}" for y
    by (cases "onnx_path model_id") (auto simp add: steps_of_def)
  have 1: "\<forall>a. LoadConvert a \<in> set (take k (steps_of model_id)) \<longrightarrow> a = model_id"
    using sub mem by fastforce
  have 2: "\<forall>b. LoadTokenizer b \<in> set (take k (steps_of model_id)) \<longrightarrow> b = model_id"
    using sub mem by fastforce
  have 3: "\<forall>p. SaveModel p \<in> set (take k (steps_of model_id)) \<longrightarrow> onnx_path model_id = Inr p"
    using sub mem by fastforce
  have 4: "\<forall>q. SaveTokenizer q \<in> set (take k (steps_of model_id)) \<longrightarrow> onnx_path model_id = Inr q"
    using sub mem by fastforce
  have 5: "fst (loop_body env model_id s) = Inr () \<longrightarrow>
        (\<exists>p. onnx_path model_id = Inr p \<and>
           take k (steps_of model_id) =
             [Derived model_id p, LoadConvert model_id, LoadTokenizer model_id,
              SaveModel p, SaveTokenizer p])"
  proof
    assume ok: "fst (loop_body env model_id s) = Inr ()"
    then have full: "trace (snd (loop_body env model_id s)) = trace s @ steps_of model_id"
      by (rule loop_body_trace_ok)
    have tk: "take k (steps_of model_id) = steps_of model_id"
      using k full by simp
    obtain q where q: "onnx_path model_id = Inr q"
      using ok by (cases "onnx_path model_id") (simp_all add: loop_body_cases)
    show "\<exists>p. onnx_path model_id = Inr p \<and>
           take k (steps_of model_id) =
             [Derived model_id p, LoadConvert model_id, LoadTokenizer model_id,
              SaveModel p, SaveTokenizer p]"
      using q tk steps_of_Inr [OF q] by simp
  qed
  have labels: "\<exists>tr. trace (snd (loop_body env model_id s)) = trace s @ tr \<and>
      (\<forall>a. LoadConvert a \<in> set tr \<longrightarrow> a = model_id) \<and>
      (\<forall>b. LoadTokenizer b \<in> set tr \<longrightarrow> b = model_id) \<and>
      (\<forall>p. SaveModel p \<in> set tr \<longrightarrow> onnx_path model_id = Inr p) \<and>
      (\<forall>q. SaveTokenizer q \<in> set tr \<longrightarrow> onnx_path model_id = Inr q) \<and>
      (fst (loop_body env model_id s) = Inr () \<longrightarrow>
         (\<exists>p. onnx_path model_id = Inr p \<and>
            tr = [Derived model_id p, LoadConvert model_id, LoadTokenizer model_id,
                  SaveModel p, SaveTokenizer p]))"
    using k 1 2 3 4 5 by blast
  from calls labels show ?thesis
    by (intro conjI)
qed


theorem loop_body_arguments_witness:
  "loop_body recording_library ''google/flan-t5-xl'' recording_start =
     (Inr (),
      \<lparr>stdout = [],
       trace = [Derived ''google/flan-t5-xl'' (Path ''onnx/flan-t5-xl''),
                LoadConvert ''google/flan-t5-xl'', LoadTokenizer ''google/flan-t5-xl'',
                SaveModel (Path ''onnx/flan-t5-xl''), SaveTokenizer (Path ''onnx/flan-t5-xl'')],
       hub = [LoadConvert ''google/flan-t5-xl'', LoadTokenizer ''google/flan-t5-xl''],
       fs = [(''model of google/flan-t5-xl'', SaveModel (Path ''onnx/flan-t5-xl'')),
             (''tokenizer of google/flan-t5-xl'', SaveTokenizer (Path ''onnx/flan-t5-xl''))]\<rparr>) \<and>
   loop_body recording_library ''google/no-such-model'' recording_start =
     (Inl (Raised ''OSError''),
      \<lparr>stdout = [],
       trace = [Derived ''google/no-such-model'' (Path ''onnx/no-such-model''),
                LoadConvert ''google/no-such-model''],
       hub = [LoadConvert ''google/no-such-model''],
       fs = []\<rparr>) \<and>
   loop_body recording_library ''google/no-tokenizer'' recording_start =
     (Inl (Raised ''OSError''),
      \<lparr>stdout = [],
       trace = [Derived ''google/no-tokenizer'' (Path ''onnx/no-tokenizer''),
                LoadConvert ''google/no-tokenizer'', LoadTokenizer ''google/no-tokenizer''],
       hub = [LoadConvert ''google/no-tokenizer'', LoadTokenizer ''google/no-tokenizer''],
       fs = []\<rparr>) \<and>
   loop_body recording_library ''google/read-only'' recording_start =
     (Inl (Raised ''PermissionError''),
      \<lparr>stdout = [],
       trace = [Derived ''google/read-only'' (Path ''onnx/read-only''),
                LoadConvert ''google/read-only'', LoadTokenizer ''google/read-only'',
                SaveModel (Path ''onnx/read-only'')],
       hub = [LoadConvert ''google/read-only'', LoadTokenizer ''google/read-only''],
       fs = [(''model of google/read-only'', SaveModel (Path ''onnx/read-only''))]\<rparr>) \<and>
   loop_body recording_library ''google/no-space'' recording_start =
     (Inl (Raised ''OSError''),
      \<lparr>stdout = [],
       trace = [Derived ''google/no-space'' (Path ''onnx/no-space''),
                LoadConvert ''google/no-space'', LoadTokenizer ''google/no-space'',
                SaveModel (Path ''onnx/no-space''), SaveTokenizer (Path ''onnx/no-space'')],
       hub = [LoadConvert ''google/no-space'', LoadTokenizer ''google/no-space''],
       fs = [(''model of google/no-space'', SaveModel (Path ''onnx/no-space'')),
             (''tokenizer of google/no-space'', SaveTokenizer (Path ''onnx/no-space''))]\<rparr>)"
proof -
  let ?R = recording_library and ?s = recording_start
  have ok: "loop_body ?R ''google/flan-t5-xl'' ?s =
     (Inr (),
      ?s\<lparr>trace := trace ?s @ [Derived ''google/flan-t5-xl'' (Path ''onnx/flan-t5-xl''),
            LoadConvert ''google/flan-t5-xl'', LoadTokenizer ''google/flan-t5-xl'',
            SaveModel (Path ''onnx/flan-t5-xl''), SaveTokenizer (Path ''onnx/flan-t5-xl'')],
         hub := [LoadConvert ''google/flan-t5-xl'', LoadTokenizer ''google/flan-t5-xl''],
         fs := [(''model of google/flan-t5-xl'', SaveModel (Path ''onnx/flan-t5-xl'')),
                (''tokenizer of google/flan-t5-xl'', SaveTokenizer (Path ''onnx/flan-t5-xl''))]\<rparr>)"
    by (rule loop_body_arguments [where env = ?R and s = ?s
          and model_id = "''google/flan-t5-xl''" and p = "Path ''onnx/flan-t5-xl''"
          and model = "''model of google/flan-t5-xl''" and ha = "[LoadConvert ''google/flan-t5-xl'']"
          and tokenizer = "''tokenizer of google/flan-t5-xl''"
          and fa = "[(''model of google/flan-t5-xl'', SaveModel (Path ''onnx/flan-t5-xl''))]",
          THEN conjunct2, THEN conjunct2, THEN conjunct2, THEN conjunct2, THEN conjunct1, THEN mp])
       (simp add: recording_calls recording_start_def onnx_path_def model_name_def subscript_def
          Path_def splitroot_def)
  have conv: "loop_body ?R ''google/no-such-model'' ?s =
     (Inl (Raised ''OSError''),
      ?s\<lparr>trace := trace ?s @ [Derived ''google/no-such-model'' (Path ''onnx/no-such-model''),
            LoadConvert ''google/no-such-model''],
         hub := [LoadConvert ''google/no-such-model'']\<rparr>)"
    by (rule loop_body_arguments [where env = ?R and s = ?s
          and model_id = "''google/no-such-model''" and p = "Path ''onnx/no-such-model''",
          THEN conjunct1, THEN mp])
       (simp add: recording_calls recording_start_def onnx_path_def model_name_def subscript_def)
  have tok: "loop_body ?R ''google/no-tokenizer'' ?s =
     (Inl (Raised ''OSError''),
      ?s\<lparr>trace := trace ?s @ [Derived ''google/no-tokenizer'' (Path ''onnx/no-tokenizer''),
            LoadConvert ''google/no-tokenizer'', LoadTokenizer ''google/no-tokenizer''],
         hub := [LoadConvert ''google/no-tokenizer'', LoadTokenizer ''google/no-tokenizer'']\<rparr>)"
    by (rule loop_body_arguments [where env = ?R and s = ?s
          and model_id = "''google/no-tokenizer''" and p = "Path ''onnx/no-tokenizer''"
          and model = "''model of google/no-tokenizer''"
          and ha = "[LoadConvert ''google/no-tokenizer'']",
          THEN conjunct2, THEN conjunct1, THEN mp])
       (simp add: recording_calls recording_start_def onnx_path_def model_name_def subscript_def)
  have ro: "loop_body ?R ''google/read-only'' ?s =
     (Inl (Raised ''PermissionError''),
      ?s\<lparr>trace := trace ?s @ [Derived ''google/read-only'' (Path ''onnx/read-only''),
            LoadConvert ''google/read-only'', LoadTokenizer ''google/read-only'',
            SaveModel (Path ''onnx/read-only'')],
         hub := [LoadConvert ''google/read-only'', LoadTokenizer ''google/read-only''],
         fs := [(''model of google/read-only'', SaveModel (Path ''onnx/read-only''))]\<rparr>)"
    by (rule loop_body_arguments [where env = ?R and s = ?s
          and model_id = "''google/read-only''" and p = "Path ''onnx/read-only''"
          and model = "''model of google/read-only''" and ha = "[LoadConvert ''google/read-only'']"
          and tokenizer = "''tokenizer of google/read-only''",
          THEN conjunct2, THEN conjunct2, THEN conjunct1, THEN mp])
       (simp add: recording_calls recording_start_def onnx_path_def model_name_def subscript_def)
  have nsp: "loop_body ?R ''google/no-space'' ?s =
     (Inl (Raised ''OSError''),
      ?s\<lparr>trace := trace ?s @ [Derived ''google/no-space'' (Path ''onnx/no-space''),
            LoadConvert ''google/no-space'', LoadTokenizer ''google/no-space'',
            SaveModel (Path ''onnx/no-space''), SaveTokenizer (Path ''onnx/no-space'')],
         hub := [LoadConvert ''google/no-space'', LoadTokenizer ''google/no-space''],
         fs := [(''model of google/no-space'', SaveModel (Path ''onnx/no-space'')),
                (''tokenizer of google/no-space'', SaveTokenizer (Path ''onnx/no-space''))]\<rparr>)"
    by (rule loop_body_arguments [where env = ?R and s = ?s
          and model_id = "''google/no-space''" and p = "Path ''onnx/no-space''"
          and model = "''model of google/no-space''" and ha = "[LoadConvert ''google/no-space'']"
          and tokenizer = "''tokenizer of google/no-space''"
          and fa = "[(''model of google/no-space'', SaveModel (Path ''onnx/no-space''))]",
          THEN conjunct2, THEN conjunct2, THEN conjunct2, THEN conjunct1, THEN mp])
       (simp add: recording_calls recording_start_def onnx_path_def model_name_def subscript_def
          Path_def splitroot_def)
  from ok conv tok ro nsp show ?thesis
    by (simp add: recording_start_def)
qed

subsection \<open>An empty name\<close>

lemma Path_onnx_slash: "Path ''onnx/'' = Path ''onnx''"
  by (simp add: Path_def splitroot_def)

text \<open>
  C9. For an identifier that ends at its first \<open>/\<close> the derived name is empty, the
  output directory is \<open>Path("onnx/")\<close>, which is the directory \<open>onnx\<close> itself, and an
  iteration that completes saves the model and the tokenizer into it.
\<close>

theorem empty_name:
  assumes "CHR ''/'' \<notin> set ns"
  shows "model_name (ns @ ''/'') = Inr [] \<and>
         onnx_path (ns @ ''/'') = Inr (Path ''onnx'') \<and>
         Path ''onnx'' = \<lparr>root = [], parts = [''onnx'']\<rparr> \<and>
         (fst (loop_body env (ns @ ''/'') s) = Inr () \<longrightarrow>
            trace (snd (loop_body env (ns @ ''/'') s)) =
              trace s @ [Derived (ns @ ''/'') (Path ''onnx''), LoadConvert (ns @ ''/''),
                LoadTokenizer (ns @ ''/''), SaveModel (Path ''onnx''), SaveTokenizer (Path ''onnx'')])"
proof -
  have name: "model_name (ns @ ''/'') = Inr []"
    using model_name_first_sep [OF assms, of "[]"] by simp
  then have dir: "onnx_path (ns @ ''/'') = Inr (Path ''onnx'')"
    by (simp add: onnx_path_def Path_onnx_slash)
  have parts: "Path ''onnx'' = \<lparr>root = [], parts = [''onnx'']\<rparr>"
    by (simp add: Path_def splitroot_def)
  have "trace (snd (loop_body env (ns @ ''/'') s)) =
      trace s @ [Derived (ns @ ''/'') (Path ''onnx''), LoadConvert (ns @ ''/''),
        LoadTokenizer (ns @ ''/''), SaveModel (Path ''onnx''), SaveTokenizer (Path ''onnx'')]"
    if "fst (loop_body env (ns @ ''/'') s) = Inr ()"
    using loop_body_trace_ok [OF that] steps_of_Inr [OF dir] by simp
  with name dir parts show ?thesis by blast
qed

theorem empty_name_witness:
  "CHR ''/'' \<notin> set ''ns'' \<and>
   model_name ''ns/'' = Inr [] \<and>
   onnx_path ''ns/'' = Inr (Path ''onnx'') \<and>
   loop_body stub_library ''ns/'' start =
     (Inr (),
      \<lparr>stdout = [],
       trace = [Derived ''ns/'' (Path ''onnx''), LoadConvert ''ns/'', LoadTokenizer ''ns/'',
                SaveModel (Path ''onnx''), SaveTokenizer (Path ''onnx'')],
       hub = 2,
       fs = [(Path ''onnx'', ''model.onnx'') \<mapsto> ''model of ns/'',
             (Path ''onnx'', ''tokenizer.json'') \<mapsto> ''tokenizer of ns/'']\<rparr>)"
  using empty_name [of "''ns''" stub_library start]
  by (simp add: run_simps)

subsection \<open>The script on its own list\<close>

lemma steps_of_models:
  "concat (map steps_of models) =
     [Derived ''google/flan-t5-xl'' (Path ''onnx/flan-t5-xl''),
      LoadConvert ''google/flan-t5-xl'', LoadTokenizer ''google/flan-t5-xl'',
      SaveModel (Path ''onnx/flan-t5-xl''), SaveTokenizer (Path ''onnx/flan-t5-xl''),
      Derived ''google/flan-t5-xxl'' (Path ''onnx/flan-t5-xxl''),
      LoadConvert ''google/flan-t5-xxl'', LoadTokenizer ''google/flan-t5-xxl'',
      SaveModel (Path ''onnx/flan-t5-xxl''), SaveTokenizer (Path ''onnx/flan-t5-xxl'')]"
  by (simp add: models_def steps_of_def onnx_path_def model_name_def subscript_def)


lemma script_for_loop:
  "script env h f =
     for_loop env models
       \<lparr>stdout = [''transformers version: '' @ transformers_version env], trace = [],
        hub = h, fs = f\<rparr>"
  by (simp add: script_def and_then_def print_version_def)




subsection \<open>Two runs\<close>

text \<open>
  The outcomes that \<open>load_outcomes\<close> lists are those of the loading calls of the run:
  one for each loading step of the trace, in the same order.
\<close>

lemma map_add_twice: "(f ++ w) ++ w = f ++ w"
  by (rule ext) (simp add: map_add_def split: option.splits)

lemma load_outcomes_hd:
  assumes "onnx_path m = Inr p"
    and "ORTModelForSeq2SeqLM_from_pretrained env m h = (rc, ha)"
  shows "hd (load_outcomes env (m # ms) h f) = Converted m rc"
  using assms by (cases rc) (simp_all split: prod.splits sum.splits)

lemma load_outcomes_second:
  assumes "onnx_path m = Inr p"
    and "ORTModelForSeq2SeqLM_from_pretrained env m h = (Inr model, ha)"
    and "AutoTokenizer_from_pretrained env m ha = (rl, hb)"
  shows "hd (tl (load_outcomes env (m # ms) h f)) = Loaded m rl"
  using assms by (cases rl) (simp_all split: prod.splits sum.splits)

lemma load_outcomes_are_calls:
  "\<exists>steps. trace (snd (for_loop env ms s)) = trace s @ steps \<and>
     map call_of (load_outcomes env ms (hub s) (fs s)) = filter is_load steps"
proof (induction ms arbitrary: s)
  case Nil
  show ?case by simp
next
  case (Cons m ms)
  show ?case
  proof (cases "fst (loop_body env m s)")
    case (Inl e)
    then have stop: "for_loop env (m # ms) s = loop_body env m s"
      by (cases "loop_body env m s") simp
    obtain k where k: "trace (snd (loop_body env m s)) = trace s @ take k (steps_of m)"
      using loop_body_trace by blast
    have "map call_of (load_outcomes env (m # ms) (hub s) (fs s)) =
        filter is_load (drop (length (trace s)) (trace (snd (loop_body env m s))))"
      using Inl by (simp add: loop_body_cases split: prod.splits sum.splits)
    then have "map call_of (load_outcomes env (m # ms) (hub s) (fs s)) =
        filter is_load (take k (steps_of m))"
      by (simp add: k)
    with stop k show ?thesis by simp
  next
    case (Inr u)
    then obtain s2 where body: "loop_body env m s = (Inr (), s2)"
      by (cases "loop_body env m s") simp
    have full: "trace s2 = trace s @ steps_of m"
      using loop_body_trace_ok [of env m s u] Inr body by simp
    have here: "load_outcomes env (m # ms) (hub s) (fs s) =
        Converted m (fst (ORTModelForSeq2SeqLM_from_pretrained env m (hub s))) #
        Loaded m (fst (AutoTokenizer_from_pretrained env m
          (snd (ORTModelForSeq2SeqLM_from_pretrained env m (hub s))))) #
        load_outcomes env ms (hub s2) (fs s2)"
      using body by (auto simp add: loop_body_cases split: prod.splits sum.splits)
    have loads: "filter is_load (steps_of m) = [LoadConvert m, LoadTokenizer m]"
      using body by (auto simp add: loop_body_cases steps_of_def split: prod.splits sum.splits)
    obtain steps where rest: "trace (snd (for_loop env ms s2)) = trace s2 @ steps"
      and calls: "map call_of (load_outcomes env ms (hub s2) (fs s2)) = filter is_load steps"
      using Cons.IH [of s2] by blast
    have "trace (snd (for_loop env (m # ms) s)) = trace s @ (steps_of m @ steps)"
      using body rest full by simp
    moreover have "map call_of (load_outcomes env (m # ms) (hub s) (fs s)) =
        filter is_load (steps_of m @ steps)"
      by (simp only: here list.map call_of.simps filter_append loads calls append_Cons append_Nil)
    ultimately show ?thesis by blast
  qed
qed

text \<open>
  Two runs over the same list whose loading calls have the same outcomes, with saving
  calls that are deterministic and overwriting, go the same way: the same result, the
  same steps, the same files written.
\<close>

lemma for_loop_lockstep:
  assumes S: "saves_deterministic_overwriting env rm fm rt ft"
  shows "load_outcomes env ms (hub a) (fs a) = load_outcomes env ms (hub b) (fs b) \<Longrightarrow>
    \<exists>r steps w ha hb.
      for_loop env ms a = (r, a\<lparr>trace := trace a @ steps, hub := ha, fs := fs a ++ w\<rparr>) \<and>
      for_loop env ms b = (r, b\<lparr>trace := trace b @ steps, hub := hb, fs := fs b ++ w\<rparr>)"
proof (induction ms arbitrary: a b)
  case Nil
  have "for_loop env [] a = (Inr (), a\<lparr>trace := trace a @ [], hub := hub a, fs := fs a ++ Map.empty\<rparr>)"
    and "for_loop env [] b = (Inr (), b\<lparr>trace := trace b @ [], hub := hub b, fs := fs b ++ Map.empty\<rparr>)"
    by simp_all
  then show ?case by blast
next
  case (Cons m ms)
  note L = Cons.prems
  have sm: "model_save_pretrained env model q f = (rm model q, f ++ fm model q)" for model q f
    using S unfolding saves_deterministic_overwriting_def by blast
  have st: "tokenizer_save_pretrained env tokenizer q f = (rt tokenizer q, f ++ ft tokenizer q)"
    for tokenizer q f
    using S unfolding saves_deterministic_overwriting_def by blast
  show ?case
  proof (cases "onnx_path m")
    case (Inl e)
    have "for_loop env (m # ms) a =
        (Inl e, a\<lparr>trace := trace a @ [], hub := hub a, fs := fs a ++ Map.empty\<rparr>)"
      and "for_loop env (m # ms) b =
        (Inl e, b\<lparr>trace := trace b @ [], hub := hub b, fs := fs b ++ Map.empty\<rparr>)"
      using Inl by (simp_all add: loop_body_cases)
    then show ?thesis by blast
  next
    case (Inr p)
    obtain ra ha1 where ca: "ORTModelForSeq2SeqLM_from_pretrained env m (hub a) = (ra, ha1)"
      by (cases "ORTModelForSeq2SeqLM_from_pretrained env m (hub a)")
    obtain rb hb1 where cb: "ORTModelForSeq2SeqLM_from_pretrained env m (hub b) = (rb, hb1)"
      by (cases "ORTModelForSeq2SeqLM_from_pretrained env m (hub b)")
    have "Converted m ra = Converted m rb"
      using load_outcomes_hd [OF Inr ca, of ms "fs a"] load_outcomes_hd [OF Inr cb, of ms "fs b"] L
      by simp
    then have same_conv: "rb = ra" by simp
    show ?thesis
    proof (cases ra)
      case convl: (Inl x)
      have "for_loop env (m # ms) a =
          (Inl (Raised x),
           a\<lparr>trace := trace a @ [Derived m p, LoadConvert m], hub := ha1, fs := fs a ++ Map.empty\<rparr>)"
        and "for_loop env (m # ms) b =
          (Inl (Raised x),
           b\<lparr>trace := trace b @ [Derived m p, LoadConvert m], hub := hb1, fs := fs b ++ Map.empty\<rparr>)"
        using Inr ca cb same_conv convl by (simp_all add: loop_body_cases)
      then show ?thesis by blast
    next
      case convr: (Inr model)
      note ca' = ca [unfolded convr] and cb' = cb [unfolded same_conv convr]
      obtain ta ha2 where la: "AutoTokenizer_from_pretrained env m ha1 = (ta, ha2)"
        by (cases "AutoTokenizer_from_pretrained env m ha1")
      obtain tb hb2 where lb: "AutoTokenizer_from_pretrained env m hb1 = (tb, hb2)"
        by (cases "AutoTokenizer_from_pretrained env m hb1")
      have "Loaded m ta = Loaded m tb"
        using load_outcomes_second [OF Inr ca' la, of ms "fs a"]
          load_outcomes_second [OF Inr cb' lb, of ms "fs b"] L
        by simp
      then have same_tok: "tb = ta" by simp
      show ?thesis
      proof (cases ta)
        case tokl: (Inl x)
        have "for_loop env (m # ms) a =
            (Inl (Raised x),
             a\<lparr>trace := trace a @ [Derived m p, LoadConvert m, LoadTokenizer m], hub := ha2,
               fs := fs a ++ Map.empty\<rparr>)"
          and "for_loop env (m # ms) b =
            (Inl (Raised x),
             b\<lparr>trace := trace b @ [Derived m p, LoadConvert m, LoadTokenizer m], hub := hb2,
               fs := fs b ++ Map.empty\<rparr>)"
          using Inr ca' cb' la lb same_tok tokl by (simp_all add: loop_body_cases)
        then show ?thesis by blast
      next
        case tokr: (Inr tokenizer)
        note la' = la [unfolded tokr] and lb' = lb [unfolded same_tok tokr]
        show ?thesis
        proof (cases "rm model p")
          case sml: (Inl x)
          have "for_loop env (m # ms) a =
              (Inl (Raised x),
               a\<lparr>trace := trace a @ [Derived m p, LoadConvert m, LoadTokenizer m, SaveModel p],
                 hub := ha2, fs := fs a ++ fm model p\<rparr>)"
            and "for_loop env (m # ms) b =
              (Inl (Raised x),
               b\<lparr>trace := trace b @ [Derived m p, LoadConvert m, LoadTokenizer m, SaveModel p],
                 hub := hb2, fs := fs b ++ fm model p\<rparr>)"
            using Inr ca' cb' la' lb' sml by (simp_all add: loop_body_cases sm)
          then show ?thesis by blast
        next
          case smr: (Inr u)
          show ?thesis
          proof (cases "rt tokenizer p")
            case stl: (Inl x)
            have "for_loop env (m # ms) a =
                (Inl (Raised x),
                 a\<lparr>trace := trace a @ [Derived m p, LoadConvert m, LoadTokenizer m, SaveModel p,
                       SaveTokenizer p],
                   hub := ha2, fs := fs a ++ (fm model p ++ ft tokenizer p)\<rparr>)"
              and "for_loop env (m # ms) b =
                (Inl (Raised x),
                 b\<lparr>trace := trace b @ [Derived m p, LoadConvert m, LoadTokenizer m, SaveModel p,
                       SaveTokenizer p],
                   hub := hb2, fs := fs b ++ (fm model p ++ ft tokenizer p)\<rparr>)"
              using Inr ca' cb' la' lb' smr stl by (simp_all add: loop_body_cases sm st)
            then show ?thesis by blast
          next
            case str: (Inr v)
            define a2 where "a2 = a\<lparr>trace := trace a @ [Derived m p, LoadConvert m,
                LoadTokenizer m, SaveModel p, SaveTokenizer p], hub := ha2,
                fs := fs a ++ (fm model p ++ ft tokenizer p)\<rparr>"
            define b2 where "b2 = b\<lparr>trace := trace b @ [Derived m p, LoadConvert m,
                LoadTokenizer m, SaveModel p, SaveTokenizer p], hub := hb2,
                fs := fs b ++ (fm model p ++ ft tokenizer p)\<rparr>"
            have ba: "loop_body env m a = (Inr (), a2)" and bb: "loop_body env m b = (Inr (), b2)"
              using Inr ca' cb' la' lb' smr str
              by (simp_all add: loop_body_cases sm st a2_def b2_def)
            have "load_outcomes env ms (hub a2) (fs a2) = load_outcomes env ms (hub b2) (fs b2)"
              using L Inr ca' cb' la' lb' smr str by (simp add: sm st a2_def b2_def)
            then obtain r steps w ha hb where
              ra: "for_loop env ms a2 =
                (r, a2\<lparr>trace := trace a2 @ steps, hub := ha, fs := fs a2 ++ w\<rparr>)" and
              rb: "for_loop env ms b2 =
                (r, b2\<lparr>trace := trace b2 @ steps, hub := hb, fs := fs b2 ++ w\<rparr>)"
              using Cons.IH [of a2 b2] by blast
            have "for_loop env (m # ms) a =
                (r, a\<lparr>trace := trace a @ ([Derived m p, LoadConvert m, LoadTokenizer m,
                       SaveModel p, SaveTokenizer p] @ steps),
                     hub := ha, fs := fs a ++ ((fm model p ++ ft tokenizer p) ++ w)\<rparr>)"
              using ba ra by (simp add: a2_def)
            moreover have "for_loop env (m # ms) b =
                (r, b\<lparr>trace := trace b @ ([Derived m p, LoadConvert m, LoadTokenizer m,
                       SaveModel p, SaveTokenizer p] @ steps),
                     hub := hb, fs := fs b ++ ((fm model p ++ ft tokenizer p) ++ w)\<rparr>)"
              using bb rb by (simp add: b2_def)
            ultimately show ?thesis by blast
          qed
        qed
      qed
    qed
  qed
qed

text \<open>The calls of the two other libraries, and runs of the script on them.\<close>

lemma drifting_calls:
  "ORTModelForSeq2SeqLM_from_pretrained drifting_library model_id h =
     (if h < 10 then Inr (model_id, h) else Inl ''ConnectionError'', Suc h)"
  "AutoTokenizer_from_pretrained drifting_library model_id h = (Inr (model_id, h), Suc h)"
  "model_save_pretrained drifting_library model p g = (Inr (), g((p, ''model.onnx'') \<mapsto> model))"
  "tokenizer_save_pretrained drifting_library tokenizer p g =
     (Inr (), g((p, ''tokenizer.json'') \<mapsto> tokenizer))"
  "transformers_version drifting_library = ''4.26.1''"
  by (simp_all add: drifting_library_def)

lemma stub_calls:
  "ORTModelForSeq2SeqLM_from_pretrained stub_library model_id h =
     (if model_id = ''google/no-such-model'' then Inl ''OSError''
      else Inr (''model of '' @ model_id), Suc h)"
  "AutoTokenizer_from_pretrained stub_library model_id h =
     (if model_id = ''google/no-tokenizer'' then Inl ''OSError''
      else Inr (''tokenizer of '' @ model_id), Suc h)"
  "model_save_pretrained stub_library model p g = (Inr (), g((p, ''model.onnx'') \<mapsto> model))"
  "tokenizer_save_pretrained stub_library tokenizer p g =
     (Inr (), g((p, ''tokenizer.json'') \<mapsto> tokenizer))"
  "transformers_version stub_library = ''4.26.1''"
  by (simp_all add: stub_library_def)

lemma models_paths:
  "onnx_path ''google/flan-t5-xl'' = Inr (Path ''onnx/flan-t5-xl'')"
  "onnx_path ''google/flan-t5-xxl'' = Inr (Path ''onnx/flan-t5-xxl'')"
  by (simp_all add: onnx_path_def model_name_def subscript_def)

lemma stub_run:
  "script stub_library h f =
     (Inr (),
      \<lparr>stdout = [''transformers version: 4.26.1''],
       trace = concat (map steps_of models),
       hub = Suc (Suc (Suc (Suc h))),
       fs = f((Path ''onnx/flan-t5-xl'', ''model.onnx'') \<mapsto> ''model of google/flan-t5-xl'',
              (Path ''onnx/flan-t5-xl'', ''tokenizer.json'') \<mapsto> ''tokenizer of google/flan-t5-xl'',
              (Path ''onnx/flan-t5-xxl'', ''model.onnx'') \<mapsto> ''model of google/flan-t5-xxl'',
              (Path ''onnx/flan-t5-xxl'', ''tokenizer.json'') \<mapsto>
                ''tokenizer of google/flan-t5-xxl'')\<rparr>)"
  unfolding steps_of_models
  by (simp add: script_for_loop models_def loop_body_cases stub_calls models_paths)

lemma drifting_run_0:
  "script drifting_library 0 f =
     (Inr (),
      \<lparr>stdout = [''transformers version: 4.26.1''],
       trace = concat (map steps_of models),
       hub = 4,
       fs = f((Path ''onnx/flan-t5-xl'', ''model.onnx'') \<mapsto> (''google/flan-t5-xl'', 0),
              (Path ''onnx/flan-t5-xl'', ''tokenizer.json'') \<mapsto> (''google/flan-t5-xl'', 1),
              (Path ''onnx/flan-t5-xxl'', ''model.onnx'') \<mapsto> (''google/flan-t5-xxl'', 2),
              (Path ''onnx/flan-t5-xxl'', ''tokenizer.json'') \<mapsto> (''google/flan-t5-xxl'', 3))\<rparr>)"
  unfolding steps_of_models
  by (simp add: script_for_loop models_def loop_body_cases drifting_calls models_paths
      eval_nat_numeral)

lemma drifting_run_4:
  "script drifting_library 4 f =
     (Inr (),
      \<lparr>stdout = [''transformers version: 4.26.1''],
       trace = concat (map steps_of models),
       hub = 8,
       fs = f((Path ''onnx/flan-t5-xl'', ''model.onnx'') \<mapsto> (''google/flan-t5-xl'', 4),
              (Path ''onnx/flan-t5-xl'', ''tokenizer.json'') \<mapsto> (''google/flan-t5-xl'', 5),
              (Path ''onnx/flan-t5-xxl'', ''model.onnx'') \<mapsto> (''google/flan-t5-xxl'', 6),
              (Path ''onnx/flan-t5-xxl'', ''tokenizer.json'') \<mapsto> (''google/flan-t5-xxl'', 7))\<rparr>)"
  unfolding steps_of_models
  by (simp add: script_for_loop models_def loop_body_cases drifting_calls models_paths)

lemma drifting_run_8:
  "script drifting_library 8 f =
     (Inl (Raised ''ConnectionError''),
      \<lparr>stdout = [''transformers version: 4.26.1''],
       trace = [Derived ''google/flan-t5-xl'' (Path ''onnx/flan-t5-xl''),
                LoadConvert ''google/flan-t5-xl'', LoadTokenizer ''google/flan-t5-xl'',
                SaveModel (Path ''onnx/flan-t5-xl''), SaveTokenizer (Path ''onnx/flan-t5-xl''),
                Derived ''google/flan-t5-xxl'' (Path ''onnx/flan-t5-xxl''),
                LoadConvert ''google/flan-t5-xxl''],
       hub = 11,
       fs = f((Path ''onnx/flan-t5-xl'', ''model.onnx'') \<mapsto> (''google/flan-t5-xl'', 8),
              (Path ''onnx/flan-t5-xl'', ''tokenizer.json'') \<mapsto> (''google/flan-t5-xl'', 9))\<rparr>)"
  by (simp add: script_for_loop models_def loop_body_cases drifting_calls models_paths)

text \<open>
  C8, as stated: two runs over the same list issue the same sequence of operations, so,
  the saving calls being deterministic and overwriting, the output directories hold the
  same contents after both. The saving calls of \<open>drifting_library\<close> are deterministic
  and overwriting. A first run of the script on it completes. A second run, started
  where the first ended, completes with the same trace, but overwrites the model of
  \<open>onnx/flan-t5-xl\<close> with another artefact, because the hub answered differently. A
  run started when the hub is about to become unreachable ends with the exception of
  the second conversion, after seven steps instead of ten.
\<close>

theorem two_runs_differ:
  "saves_deterministic_overwriting drifting_library
     (\<lambda>model p. Inr ()) (\<lambda>model p. [(p, ''model.onnx'') \<mapsto> model])
     (\<lambda>tokenizer p. Inr ()) (\<lambda>tokenizer p. [(p, ''tokenizer.json'') \<mapsto> tokenizer]) \<and>
   fst (script drifting_library 0 Map.empty) = Inr () \<and>
   hub (snd (script drifting_library 0 Map.empty)) = 4 \<and>
   fs (snd (script drifting_library 0 Map.empty)) (Path ''onnx/flan-t5-xl'', ''model.onnx'') =
     Some (''google/flan-t5-xl'', 0) \<and>
   fst (script drifting_library 4 (fs (snd (script drifting_library 0 Map.empty)))) = Inr () \<and>
   trace (snd (script drifting_library 4 (fs (snd (script drifting_library 0 Map.empty))))) =
     trace (snd (script drifting_library 0 Map.empty)) \<and>
   fs (snd (script drifting_library 4 (fs (snd (script drifting_library 0 Map.empty)))))
     (Path ''onnx/flan-t5-xl'', ''model.onnx'') = Some (''google/flan-t5-xl'', 4) \<and>
   fs (snd (script drifting_library 4 (fs (snd (script drifting_library 0 Map.empty))))) \<noteq>
     fs (snd (script drifting_library 0 Map.empty)) \<and>
   fst (script drifting_library 8 Map.empty) = Inl (Raised ''ConnectionError'') \<and>
   length (trace (snd (script drifting_library 8 Map.empty))) = 7 \<and>
   length (trace (snd (script drifting_library 0 Map.empty))) = 10 \<and>
   trace (snd (script drifting_library 8 Map.empty)) \<noteq>
     trace (snd (script drifting_library 0 Map.empty))"
proof -
  have over: "saves_deterministic_overwriting drifting_library
     (\<lambda>model p. Inr ()) (\<lambda>model p. [(p, ''model.onnx'') \<mapsto> model])
     (\<lambda>tokenizer p. Inr ()) (\<lambda>tokenizer p. [(p, ''tokenizer.json'') \<mapsto> tokenizer])"
    by (simp add: saves_deterministic_overwriting_def drifting_calls)
  have first: "fs (snd (script drifting_library 0 Map.empty)) (Path ''onnx/flan-t5-xl'', ''model.onnx'') =
     Some (''google/flan-t5-xl'', 0)"
    by (simp add: drifting_run_0 Path_def splitroot_def)
  have second: "fs (snd (script drifting_library 4 (fs (snd (script drifting_library 0 Map.empty)))))
     (Path ''onnx/flan-t5-xl'', ''model.onnx'') = Some (''google/flan-t5-xl'', 4)"
    by (simp add: drifting_run_4 Path_def splitroot_def)
  have differ: "fs (snd (script drifting_library 4 (fs (snd (script drifting_library 0 Map.empty))))) \<noteq>
     fs (snd (script drifting_library 0 Map.empty))"
  proof
    assume "fs (snd (script drifting_library 4 (fs (snd (script drifting_library 0 Map.empty))))) =
      fs (snd (script drifting_library 0 Map.empty))"
    then have "fs (snd (script drifting_library 4 (fs (snd (script drifting_library 0 Map.empty)))))
        (Path ''onnx/flan-t5-xl'', ''model.onnx'') =
      fs (snd (script drifting_library 0 Map.empty)) (Path ''onnx/flan-t5-xl'', ''model.onnx'')"
      by (rule arg_cong)
    then show False
      unfolding first second by simp
  qed
  have len8: "length (trace (snd (script drifting_library 8 Map.empty))) = 7"
    by (simp add: drifting_run_8)
  have len0: "length (trace (snd (script drifting_library 0 Map.empty))) = 10"
    by (simp add: drifting_run_0 steps_of_models)
  have tdiffer: "trace (snd (script drifting_library 8 Map.empty)) \<noteq>
     trace (snd (script drifting_library 0 Map.empty))"
  proof
    assume "trace (snd (script drifting_library 8 Map.empty)) =
      trace (snd (script drifting_library 0 Map.empty))"
    then have "length (trace (snd (script drifting_library 8 Map.empty))) =
      length (trace (snd (script drifting_library 0 Map.empty)))"
      by (rule arg_cong)
    then show False
      unfolding len8 len0 by simp
  qed
  have "fst (script drifting_library 0 Map.empty) = Inr ()"
    and "hub (snd (script drifting_library 0 Map.empty)) = 4"
    and "fst (script drifting_library 4 (fs (snd (script drifting_library 0 Map.empty)))) = Inr ()"
    and "trace (snd (script drifting_library 4 (fs (snd (script drifting_library 0 Map.empty))))) =
      trace (snd (script drifting_library 0 Map.empty))"
    and "fst (script drifting_library 8 Map.empty) = Inl (Raised ''ConnectionError'')"
    by (simp_all add: drifting_run_0 drifting_run_4 drifting_run_8)
  with over first second differ len8 len0 tdiffer show ?thesis
    by (intro conjI)
qed

text \<open>
  C8, amended: two runs of the script that complete have the same trace (the same
  derived directories and the same calls in the same order), whatever the library
  does. When every loading call has the same outcome in the second run as in the
  first, and the saving calls are deterministic and overwriting, the two runs end the
  same way with the same trace and write the same files; a second run started on the
  filesystem the first run left leaves it as it was.
\<close>

theorem script_deterministic:
  "(fst (script env ha fa) = Inr () \<and> fst (script env hb fb) = Inr () \<longrightarrow>
      trace (snd (script env hb fb)) = trace (snd (script env ha fa))) \<and>
   (load_outcomes env models ha fa = load_outcomes env models hb fb \<and>
    saves_deterministic_overwriting env model_result model_files tokenizer_result tokenizer_files \<longrightarrow>
      fst (script env hb fb) = fst (script env ha fa) \<and>
      trace (snd (script env hb fb)) = trace (snd (script env ha fa)) \<and>
      (\<exists>w. fs (snd (script env ha fa)) = fa ++ w \<and> fs (snd (script env hb fb)) = fb ++ w) \<and>
      (fb = fs (snd (script env ha fa)) \<longrightarrow>
         fs (snd (script env hb fb)) = fs (snd (script env ha fa))))"
proof (intro conjI impI)
  assume "fst (script env ha fa) = Inr () \<and> fst (script env hb fb) = Inr ()"
  then have "trace (snd (script env ha fa)) = concat (map steps_of models)"
    and "trace (snd (script env hb fb)) = concat (map steps_of models)"
    using for_loop_trace_ok [of env models _ "()"] by (simp_all add: script_for_loop)
  then show "trace (snd (script env hb fb)) = trace (snd (script env ha fa))"
    by simp
next
  assume a: "load_outcomes env models ha fa = load_outcomes env models hb fb \<and>
    saves_deterministic_overwriting env model_result model_files tokenizer_result tokenizer_files"
  define sa where "sa = \<lparr>stdout = [''transformers version: '' @ transformers_version env],
      trace = [], hub = ha, fs = fa\<rparr>"
  define sb where "sb = \<lparr>stdout = [''transformers version: '' @ transformers_version env],
      trace = [], hub = hb, fs = fb\<rparr>"
  have "load_outcomes env models (hub sa) (fs sa) = load_outcomes env models (hub sb) (fs sb)"
    using a by (simp add: sa_def sb_def)
  then obtain r steps w ka kb where
    ra: "for_loop env models sa = (r, sa\<lparr>trace := trace sa @ steps, hub := ka, fs := fs sa ++ w\<rparr>)" and
    rb: "for_loop env models sb = (r, sb\<lparr>trace := trace sb @ steps, hub := kb, fs := fs sb ++ w\<rparr>)"
    using for_loop_lockstep [of env model_result model_files tokenizer_result tokenizer_files
        models sa sb] a
    by blast
  have ea: "script env ha fa =
      (r, \<lparr>stdout = [''transformers version: '' @ transformers_version env],
           trace = steps, hub = ka, fs = fa ++ w\<rparr>)"
    using ra by (simp add: script_for_loop sa_def)
  have eb: "script env hb fb =
      (r, \<lparr>stdout = [''transformers version: '' @ transformers_version env],
           trace = steps, hub = kb, fs = fb ++ w\<rparr>)"
    using rb by (simp add: script_for_loop sb_def)
  show "fst (script env hb fb) = fst (script env ha fa)"
    by (simp add: ea eb)
  show "trace (snd (script env hb fb)) = trace (snd (script env ha fa))"
    by (simp add: ea eb)
  show "\<exists>w. fs (snd (script env ha fa)) = fa ++ w \<and> fs (snd (script env hb fb)) = fb ++ w"
    using ea eb by auto
  show "fs (snd (script env hb fb)) = fs (snd (script env ha fa))"
    if "fb = fs (snd (script env ha fa))"
  proof -
    have "fb = fa ++ w"
      using that by (simp add: ea)
    have "fs (snd (script env hb fb)) = fb ++ w"
      by (simp add: eb)
    also have "\<dots> = (fa ++ w) ++ w"
      by (simp only: \<open>fb = fa ++ w\<close>)
    also have "\<dots> = fa ++ w"
      by (rule map_add_twice)
    also have "\<dots> = fs (snd (script env ha fa))"
      by (simp add: ea)
    finally show ?thesis .
  qed
qed


theorem script_deterministic_witness:
  "script stub_library 0 Map.empty =
     (Inr (),
      \<lparr>stdout = [''transformers version: 4.26.1''],
       trace = [Derived ''google/flan-t5-xl'' (Path ''onnx/flan-t5-xl''),
         LoadConvert ''google/flan-t5-xl'', LoadTokenizer ''google/flan-t5-xl'',
         SaveModel (Path ''onnx/flan-t5-xl''), SaveTokenizer (Path ''onnx/flan-t5-xl''),
         Derived ''google/flan-t5-xxl'' (Path ''onnx/flan-t5-xxl''),
         LoadConvert ''google/flan-t5-xxl'', LoadTokenizer ''google/flan-t5-xxl'',
         SaveModel (Path ''onnx/flan-t5-xxl''), SaveTokenizer (Path ''onnx/flan-t5-xxl'')],
       hub = 4,
       fs = [(Path ''onnx/flan-t5-xl'', ''model.onnx'') \<mapsto> ''model of google/flan-t5-xl'',
             (Path ''onnx/flan-t5-xl'', ''tokenizer.json'') \<mapsto> ''tokenizer of google/flan-t5-xl'',
             (Path ''onnx/flan-t5-xxl'', ''model.onnx'') \<mapsto> ''model of google/flan-t5-xxl'',
             (Path ''onnx/flan-t5-xxl'', ''tokenizer.json'') \<mapsto> ''tokenizer of google/flan-t5-xxl'']\<rparr>) \<and>
   load_outcomes stub_library models 0 Map.empty =
     [Converted ''google/flan-t5-xl'' (Inr ''model of google/flan-t5-xl''),
      Loaded ''google/flan-t5-xl'' (Inr ''tokenizer of google/flan-t5-xl''),
      Converted ''google/flan-t5-xxl'' (Inr ''model of google/flan-t5-xxl''),
      Loaded ''google/flan-t5-xxl'' (Inr ''tokenizer of google/flan-t5-xxl'')] \<and>
   load_outcomes stub_library models 0 Map.empty =
     load_outcomes stub_library models 4 (fs (snd (script stub_library 0 Map.empty))) \<and>
   saves_deterministic_overwriting stub_library
     (\<lambda>model p. Inr ()) (\<lambda>model p. [(p, ''model.onnx'') \<mapsto> model])
     (\<lambda>tokenizer p. Inr ()) (\<lambda>tokenizer p. [(p, ''tokenizer.json'') \<mapsto> tokenizer]) \<and>
   fst (script stub_library 4 (fs (snd (script stub_library 0 Map.empty)))) = Inr () \<and>
   hub (snd (script stub_library 4 (fs (snd (script stub_library 0 Map.empty))))) = 8 \<and>
   trace (snd (script stub_library 4 (fs (snd (script stub_library 0 Map.empty))))) =
     trace (snd (script stub_library 0 Map.empty)) \<and>
   fs (snd (script stub_library 4 (fs (snd (script stub_library 0 Map.empty))))) =
     [(Path ''onnx/flan-t5-xl'', ''model.onnx'') \<mapsto> ''model of google/flan-t5-xl'',
      (Path ''onnx/flan-t5-xl'', ''tokenizer.json'') \<mapsto> ''tokenizer of google/flan-t5-xl'',
      (Path ''onnx/flan-t5-xxl'', ''model.onnx'') \<mapsto> ''model of google/flan-t5-xxl'',
      (Path ''onnx/flan-t5-xxl'', ''tokenizer.json'') \<mapsto> ''tokenizer of google/flan-t5-xxl''] \<and>
   script drifting_library 0 Map.empty =
     (Inr (),
      \<lparr>stdout = [''transformers version: 4.26.1''],
       trace = [Derived ''google/flan-t5-xl'' (Path ''onnx/flan-t5-xl''),
         LoadConvert ''google/flan-t5-xl'', LoadTokenizer ''google/flan-t5-xl'',
         SaveModel (Path ''onnx/flan-t5-xl''), SaveTokenizer (Path ''onnx/flan-t5-xl''),
         Derived ''google/flan-t5-xxl'' (Path ''onnx/flan-t5-xxl''),
         LoadConvert ''google/flan-t5-xxl'', LoadTokenizer ''google/flan-t5-xxl'',
         SaveModel (Path ''onnx/flan-t5-xxl''), SaveTokenizer (Path ''onnx/flan-t5-xxl'')],
       hub = 4,
       fs = [(Path ''onnx/flan-t5-xl'', ''model.onnx'') \<mapsto> (''google/flan-t5-xl'', 0),
             (Path ''onnx/flan-t5-xl'', ''tokenizer.json'') \<mapsto> (''google/flan-t5-xl'', 1),
             (Path ''onnx/flan-t5-xxl'', ''model.onnx'') \<mapsto> (''google/flan-t5-xxl'', 2),
             (Path ''onnx/flan-t5-xxl'', ''tokenizer.json'') \<mapsto> (''google/flan-t5-xxl'', 3)]\<rparr>) \<and>
   load_outcomes drifting_library models 0 Map.empty =
     load_outcomes drifting_library models 0 (fs (snd (script drifting_library 0 Map.empty))) \<and>
   saves_deterministic_overwriting drifting_library
     (\<lambda>model p. Inr ()) (\<lambda>model p. [(p, ''model.onnx'') \<mapsto> model])
     (\<lambda>tokenizer p. Inr ()) (\<lambda>tokenizer p. [(p, ''tokenizer.json'') \<mapsto> tokenizer]) \<and>
   fs (snd (script drifting_library 0 (fs (snd (script drifting_library 0 Map.empty))))) =
     [(Path ''onnx/flan-t5-xl'', ''model.onnx'') \<mapsto> (''google/flan-t5-xl'', 0),
      (Path ''onnx/flan-t5-xl'', ''tokenizer.json'') \<mapsto> (''google/flan-t5-xl'', 1),
      (Path ''onnx/flan-t5-xxl'', ''model.onnx'') \<mapsto> (''google/flan-t5-xxl'', 2),
      (Path ''onnx/flan-t5-xxl'', ''tokenizer.json'') \<mapsto> (''google/flan-t5-xxl'', 3)]"
proof -
  have run1: "script stub_library 0 Map.empty =
     (Inr (),
      \<lparr>stdout = [''transformers version: 4.26.1''],
       trace = [Derived ''google/flan-t5-xl'' (Path ''onnx/flan-t5-xl''),
         LoadConvert ''google/flan-t5-xl'', LoadTokenizer ''google/flan-t5-xl'',
         SaveModel (Path ''onnx/flan-t5-xl''), SaveTokenizer (Path ''onnx/flan-t5-xl''),
         Derived ''google/flan-t5-xxl'' (Path ''onnx/flan-t5-xxl''),
         LoadConvert ''google/flan-t5-xxl'', LoadTokenizer ''google/flan-t5-xxl'',
         SaveModel (Path ''onnx/flan-t5-xxl''), SaveTokenizer (Path ''onnx/flan-t5-xxl'')],
       hub = 4,
       fs = [(Path ''onnx/flan-t5-xl'', ''model.onnx'') \<mapsto> ''model of google/flan-t5-xl'',
             (Path ''onnx/flan-t5-xl'', ''tokenizer.json'') \<mapsto> ''tokenizer of google/flan-t5-xl'',
             (Path ''onnx/flan-t5-xxl'', ''model.onnx'') \<mapsto> ''model of google/flan-t5-xxl'',
             (Path ''onnx/flan-t5-xxl'', ''tokenizer.json'') \<mapsto> ''tokenizer of google/flan-t5-xxl'']\<rparr>)"
    by (simp add: stub_run steps_of_models)
  have out: "load_outcomes stub_library models 0 Map.empty =
     [Converted ''google/flan-t5-xl'' (Inr ''model of google/flan-t5-xl''),
      Loaded ''google/flan-t5-xl'' (Inr ''tokenizer of google/flan-t5-xl''),
      Converted ''google/flan-t5-xxl'' (Inr ''model of google/flan-t5-xxl''),
      Loaded ''google/flan-t5-xxl'' (Inr ''tokenizer of google/flan-t5-xxl'')]"
    by (simp add: models_def stub_calls models_paths)
  have L: "load_outcomes stub_library models 0 Map.empty =
     load_outcomes stub_library models 4 (fs (snd (script stub_library 0 Map.empty)))"
    by (simp add: models_def stub_calls models_paths)
  have S: "saves_deterministic_overwriting stub_library
     (\<lambda>model p. Inr ()) (\<lambda>model p. [(p, ''model.onnx'') \<mapsto> model])
     (\<lambda>tokenizer p. Inr ()) (\<lambda>tokenizer p. [(p, ''tokenizer.json'') \<mapsto> tokenizer])"
    by (simp add: saves_deterministic_overwriting_def stub_calls)
  have ok2: "fst (script stub_library 4 (fs (snd (script stub_library 0 Map.empty)))) = Inr ()"
    and hub2: "hub (snd (script stub_library 4 (fs (snd (script stub_library 0 Map.empty))))) = 8"
    by (simp_all add: stub_run)
  have same: "trace (snd (script stub_library 4 (fs (snd (script stub_library 0 Map.empty))))) =
      trace (snd (script stub_library 0 Map.empty)) \<and>
    fs (snd (script stub_library 4 (fs (snd (script stub_library 0 Map.empty))))) =
      fs (snd (script stub_library 0 Map.empty))"
    using script_deterministic [of stub_library 0 Map.empty 4
        "fs (snd (script stub_library 0 Map.empty))"
        "\<lambda>model p. Inr ()" "\<lambda>model p. [(p, ''model.onnx'') \<mapsto> model]"
        "\<lambda>tokenizer p. Inr ()" "\<lambda>tokenizer p. [(p, ''tokenizer.json'') \<mapsto> tokenizer]"]
      L S
    by blast
  then have fs2: "fs (snd (script stub_library 4 (fs (snd (script stub_library 0 Map.empty))))) =
     [(Path ''onnx/flan-t5-xl'', ''model.onnx'') \<mapsto> ''model of google/flan-t5-xl'',
      (Path ''onnx/flan-t5-xl'', ''tokenizer.json'') \<mapsto> ''tokenizer of google/flan-t5-xl'',
      (Path ''onnx/flan-t5-xxl'', ''model.onnx'') \<mapsto> ''model of google/flan-t5-xxl'',
      (Path ''onnx/flan-t5-xxl'', ''tokenizer.json'') \<mapsto> ''tokenizer of google/flan-t5-xxl'']"
    by (simp only: run1 snd_conv state.simps)
  have drun: "script drifting_library 0 Map.empty =
     (Inr (),
      \<lparr>stdout = [''transformers version: 4.26.1''],
       trace = [Derived ''google/flan-t5-xl'' (Path ''onnx/flan-t5-xl''),
         LoadConvert ''google/flan-t5-xl'', LoadTokenizer ''google/flan-t5-xl'',
         SaveModel (Path ''onnx/flan-t5-xl''), SaveTokenizer (Path ''onnx/flan-t5-xl''),
         Derived ''google/flan-t5-xxl'' (Path ''onnx/flan-t5-xxl''),
         LoadConvert ''google/flan-t5-xxl'', LoadTokenizer ''google/flan-t5-xxl'',
         SaveModel (Path ''onnx/flan-t5-xxl''), SaveTokenizer (Path ''onnx/flan-t5-xxl'')],
       hub = 4,
       fs = [(Path ''onnx/flan-t5-xl'', ''model.onnx'') \<mapsto> (''google/flan-t5-xl'', 0),
             (Path ''onnx/flan-t5-xl'', ''tokenizer.json'') \<mapsto> (''google/flan-t5-xl'', 1),
             (Path ''onnx/flan-t5-xxl'', ''model.onnx'') \<mapsto> (''google/flan-t5-xxl'', 2),
             (Path ''onnx/flan-t5-xxl'', ''tokenizer.json'') \<mapsto> (''google/flan-t5-xxl'', 3)]\<rparr>)"
    by (simp add: drifting_run_0 steps_of_models)
  have L': "load_outcomes drifting_library models 0 Map.empty =
     load_outcomes drifting_library models 0 (fs (snd (script drifting_library 0 Map.empty)))"
    by (simp add: models_def drifting_calls models_paths)
  have S': "saves_deterministic_overwriting drifting_library
     (\<lambda>model p. Inr ()) (\<lambda>model p. [(p, ''model.onnx'') \<mapsto> model])
     (\<lambda>tokenizer p. Inr ()) (\<lambda>tokenizer p. [(p, ''tokenizer.json'') \<mapsto> tokenizer])"
    by (simp add: saves_deterministic_overwriting_def drifting_calls)
  have "fs (snd (script drifting_library 0 (fs (snd (script drifting_library 0 Map.empty))))) =
     fs (snd (script drifting_library 0 Map.empty))"
    using script_deterministic [of drifting_library 0 Map.empty 0
        "fs (snd (script drifting_library 0 Map.empty))"
        "\<lambda>model p. Inr ()" "\<lambda>model p. [(p, ''model.onnx'') \<mapsto> model]"
        "\<lambda>tokenizer p. Inr ()" "\<lambda>tokenizer p. [(p, ''tokenizer.json'') \<mapsto> tokenizer]"]
      L' S'
    by blast
  then have dfs2: "fs (snd (script drifting_library 0 (fs (snd (script drifting_library 0 Map.empty))))) =
     [(Path ''onnx/flan-t5-xl'', ''model.onnx'') \<mapsto> (''google/flan-t5-xl'', 0),
      (Path ''onnx/flan-t5-xl'', ''tokenizer.json'') \<mapsto> (''google/flan-t5-xl'', 1),
      (Path ''onnx/flan-t5-xxl'', ''model.onnx'') \<mapsto> (''google/flan-t5-xxl'', 2),
      (Path ''onnx/flan-t5-xxl'', ''tokenizer.json'') \<mapsto> (''google/flan-t5-xxl'', 3)]"
    by (simp only: drun snd_conv state.simps)
  from run1 out L S ok2 hub2 same fs2 drun L' S' dfs2 show ?thesis
    by (intro conjI) (simp_all only: simp_thms)
qed

end
